theory Spec2Isabelle
  imports Main
begin

section \<open>Python strings\<close>

text \<open>
  Strings are lists of characters with codes below 256, which is what \<^verbatim>\<open>requests\<close>
  gives for header text; the strings the program builds itself are ASCII. \<open>startswith\<close>
  and \<open>py_in\<close> are Python's \<^verbatim>\<open>s.startswith(p)\<close> and \<^verbatim>\<open>needle in haystack\<close> on
  strings. \<open>lower\<close> is \<^verbatim>\<open>str.lower()\<close>: it changes the ASCII capitals and the capitals
  from \<^verbatim>\<open>0xC0\<close> to \<^verbatim>\<open>0xDE\<close> (the multiplication sign \<^verbatim>\<open>0xD7\<close> apart).
  \<open>upper\<close> is \<^verbatim>\<open>str.upper()\<close> on ASCII strings, the only ones the program applies it to.
\<close>

fun startswith :: "string \<Rightarrow> string \<Rightarrow> bool" where
  "startswith s [] = True"
| "startswith [] (p # ps) = False"
| "startswith (c # s) (p # ps) = (c = p \<and> startswith s ps)"

fun py_in :: "string \<Rightarrow> string \<Rightarrow> bool" where
  "py_in needle [] = (needle = [])"
| "py_in needle (c # s) = (startswith (c # s) needle \<or> py_in needle s)"

definition ascii_uppercase :: string where
  "ascii_uppercase = ''ABCDEFGHIJKLMNOPQRSTUVWXYZ''"

definition ascii_lowercase :: string where
  "ascii_lowercase = ''abcdefghijklmnopqrstuvwxyz''"

definition latin1_uppercase :: string where
  "latin1_uppercase =
     [CHR 0xC0, CHR 0xC1, CHR 0xC2, CHR 0xC3, CHR 0xC4, CHR 0xC5, CHR 0xC6, CHR 0xC7,
      CHR 0xC8, CHR 0xC9, CHR 0xCA, CHR 0xCB, CHR 0xCC, CHR 0xCD, CHR 0xCE, CHR 0xCF,
      CHR 0xD0, CHR 0xD1, CHR 0xD2, CHR 0xD3, CHR 0xD4, CHR 0xD5, CHR 0xD6,
      CHR 0xD8, CHR 0xD9, CHR 0xDA, CHR 0xDB, CHR 0xDC, CHR 0xDD, CHR 0xDE]"

definition latin1_lowercase :: string where
  "latin1_lowercase =
     [CHR 0xE0, CHR 0xE1, CHR 0xE2, CHR 0xE3, CHR 0xE4, CHR 0xE5, CHR 0xE6, CHR 0xE7,
      CHR 0xE8, CHR 0xE9, CHR 0xEA, CHR 0xEB, CHR 0xEC, CHR 0xED, CHR 0xEE, CHR 0xEF,
      CHR 0xF0, CHR 0xF1, CHR 0xF2, CHR 0xF3, CHR 0xF4, CHR 0xF5, CHR 0xF6,
      CHR 0xF8, CHR 0xF9, CHR 0xFA, CHR 0xFB, CHR 0xFC, CHR 0xFD, CHR 0xFE]"

definition lower_char :: "char \<Rightarrow> char" where
  "lower_char c = (case map_of (zip (ascii_uppercase @ latin1_uppercase)
                                    (ascii_lowercase @ latin1_lowercase)) c of
                     Some l \<Rightarrow> l | None \<Rightarrow> c)"

definition upper_char :: "char \<Rightarrow> char" where
  "upper_char c = (case map_of (zip ascii_lowercase ascii_uppercase) c of
                     Some u \<Rightarrow> u | None \<Rightarrow> c)"

definition lower :: "string \<Rightarrow> string" where
  "lower s = map lower_char s"

definition upper :: "string \<Rightarrow> string" where
  "upper s = map upper_char s"

fun join :: "string \<Rightarrow> string list \<Rightarrow> string" where
  "join sep [] = []"
| "join sep [x] = x"
| "join sep (x # y # ys) = x @ sep @ join sep (y # ys)"

text \<open>
  \<open>py_repr\<close> is \<^verbatim>\<open>repr\<close> of a string: single quotes unless the string holds a single
  quote and no double quote; the quote in use and the backslash are escaped, tab, newline
  and carriage return are written \<^verbatim>\<open>\t\<close>, \<^verbatim>\<open>\n\<close>, \<^verbatim>\<open>\r\<close>, and every other
  character that is not printable (below the space, from \<^verbatim>\<open>0x7F\<close> to \<^verbatim>\<open>0xA0\<close>, and
  \<^verbatim>\<open>0xAD\<close>) as \<^verbatim>\<open>\xhh\<close>.
\<close>

definition hex_digit :: "nat \<Rightarrow> char" where
  "hex_digit n = ''0123456789abcdef'' ! (n mod 16)"

definition repr_char :: "char \<Rightarrow> char \<Rightarrow> string" where
  "repr_char quote c =
     (if c = quote \<or> c = CHR 0x5C then [CHR 0x5C, c]
      else if c = CHR 0x09 then [CHR 0x5C, CHR ''t'']
      else if c = CHR 0x0A then [CHR 0x5C, CHR ''n'']
      else if c = CHR 0x0D then [CHR 0x5C, CHR ''r'']
      else if (of_char c :: nat) < 32 \<or> (127 \<le> (of_char c :: nat) \<and> (of_char c :: nat) \<le> 160)
              \<or> (of_char c :: nat) = 173
        then [CHR 0x5C, CHR ''x'', hex_digit (of_char c div 16), hex_digit (of_char c)]
      else [c])"

definition py_repr :: "string \<Rightarrow> string" where
  "py_repr s =
     (let quote = (if CHR 0x27 \<in> set s \<and> CHR 0x22 \<notin> set s then CHR 0x22 else CHR 0x27)
      in [quote] @ concat (map (repr_char quote) s) @ [quote])"

text \<open>\<^verbatim>\<open>str(d)\<close> of a dict of strings and \<^verbatim>\<open>str(xs)\<close> of a list of strings.\<close>

definition str_dict :: "(string \<times> string) list \<Rightarrow> string" where
  "str_dict d = ''{'' @ join '', '' (map (\<lambda>(k, v). py_repr k @ '': '' @ py_repr v) d) @ ''}''"

definition str_list :: "string list \<Rightarrow> string" where
  "str_list xs = ''['' @ join '', '' (map py_repr xs) @ '']''"

section \<open>Exceptions, Python values, the network\<close>

text \<open>
  Every exception below is a subclass of \<^verbatim>\<open>Exception\<close>, so a handler
  \<^verbatim>\<open>except Exception\<close> catches each of them.
\<close>

datatype py_exception =
    ConnectionRefused | DNSFailure | Timeout | TLSFailure | InvalidURL
  | ValueError | KeyError | TypeError | AttributeError
  | OSError | YAMLError
  | RedisConnectionError | RedisDataError

datatype pyval = PNone | PBool bool | PInt int | PStr string | PList "string list"

text \<open>A \<^verbatim>\<open>requests\<close> response: \<open>status_code\<close>, the body \<^verbatim>\<open>r.text\<close> (here \<open>body_text\<close>) and
  \<open>headers\<close>.\<close>

record response =
  status_code :: int
  body_text :: string
  headers :: "(string \<times> string) list"

text \<open>
  The network is an oracle with a state of its own (type \<open>'w\<close>): each call gets the
  request and the current state, and answers with an exception or a result, and the next
  state. \<open>requests_get\<close> and \<open>requests_post\<close> take the URL and the timeout,
  \<open>create_connection\<close> the host (\<open>None\<close> is Python's \<^verbatim>\<open>None\<close>), the port and the
  timeout.
\<close>

record 'w network =
  requests_get :: "string \<Rightarrow> nat option \<Rightarrow> 'w \<Rightarrow> (py_exception + response) \<times> 'w"
  requests_post :: "string \<Rightarrow> nat option \<Rightarrow> 'w \<Rightarrow> (py_exception + response) \<times> 'w"
  create_connection :: "string option \<Rightarrow> nat \<Rightarrow> nat option \<Rightarrow> 'w \<Rightarrow> (py_exception + unit) \<times> 'w"

section \<open>app/permission.py: the probes\<close>

text \<open>
  Each probe sends its request and tests the answer; \<^verbatim>\<open>except Exception\<close> turns every
  exception of the call into \<open>False\<close>. The resolver calls \<open>check_prometheus_metrics\<close>
  without its optional \<^verbatim>\<open>headers\<close>, which are left out here.
\<close>

definition PROM_TIMEOUT :: nat where "PROM_TIMEOUT = 3"
definition OTEL_TIMEOUT :: nat where "OTEL_TIMEOUT = 2"
definition STATSD_PORT :: nat where "STATSD_PORT = 8125"

definition check_prometheus_metrics :: "'w network \<Rightarrow> string \<Rightarrow> 'w \<Rightarrow> bool \<times> 'w" where
  "check_prometheus_metrics net base_url w =
     (case requests_get net (base_url @ ''/metrics'') (Some PROM_TIMEOUT) w of
        (Inl e, w') \<Rightarrow> (False, w')
      | (Inr r, w') \<Rightarrow> (status_code r = 200 \<and> py_in ''HELP'' (body_text r), w'))"

definition check_prometheus_auth :: "'w network \<Rightarrow> string \<Rightarrow> 'w \<Rightarrow> bool \<times> 'w" where
  "check_prometheus_auth net base_url w =
     (case requests_get net (base_url @ ''/metrics'') (Some PROM_TIMEOUT) w of
        (Inl e, w') \<Rightarrow> (False, w')
      | (Inr r, w') \<Rightarrow> (status_code r \<in> set [401, 403], w'))"

text \<open>The loop of \<open>check_otlp_http\<close> over its paths; an exception moves on to the next path.\<close>

fun otlp_paths_loop :: "'w network \<Rightarrow> string \<Rightarrow> string list \<Rightarrow> 'w \<Rightarrow> bool \<times> 'w" where
  "otlp_paths_loop net base_url [] w = (False, w)"
| "otlp_paths_loop net base_url (path # paths) w =
     (case requests_post net (base_url @ path) (Some OTEL_TIMEOUT) w of
        (Inl e, w') \<Rightarrow> otlp_paths_loop net base_url paths w'
      | (Inr r, w') \<Rightarrow>
          if status_code r \<in> set [200, 404, 415] then (True, w')
          else otlp_paths_loop net base_url paths w')"

definition check_otlp_http :: "'w network \<Rightarrow> string \<Rightarrow> 'w \<Rightarrow> bool \<times> 'w" where
  "check_otlp_http net base_url w =
     otlp_paths_loop net base_url [''/v1/traces'', ''/v1/metrics''] w"

definition check_otlp_grpc :: "'w network \<Rightarrow> string option \<Rightarrow> 'w \<Rightarrow> bool \<times> 'w" where
  "check_otlp_grpc net host w =
     (case create_connection net host 4317 (Some OTEL_TIMEOUT) w of
        (Inl e, w') \<Rightarrow> (False, w')
      | (Inr u, w') \<Rightarrow> (True, w'))"

definition check_statsd :: "'w network \<Rightarrow> string option \<Rightarrow> 'w \<Rightarrow> bool \<times> 'w" where
  "check_statsd net host w =
     (case create_connection net host STATSD_PORT (Some 2) w of
        (Inl e, w') \<Rightarrow> (False, w')
      | (Inr u, w') \<Rightarrow> (True, w'))"

definition detect_kubernetes_env :: "(string \<times> string) list \<Rightarrow> bool" where
  "detect_kubernetes_env hdrs = py_in ''x-kubernetes'' (lower (str_dict hdrs))"

definition detect_cloud_provider :: "(string \<times> string) list \<Rightarrow> string option" where
  "detect_cloud_provider hdrs =
     (let header_str = lower (str_dict hdrs) in
      if py_in ''x-amzn'' header_str then Some ''aws''
      else if py_in ''x-goog'' header_str then Some ''gcp''
      else if py_in ''x-ms'' header_str then Some ''azure''
      else None)"

definition check_blackbox_http :: "'w network \<Rightarrow> string \<Rightarrow> 'w \<Rightarrow> bool \<times> 'w" where
  "check_blackbox_http net url w =
     (case requests_get net url (Some 5) w of
        (Inl e, w') \<Rightarrow> (False, w')
      | (Inr r, w') \<Rightarrow> (status_code r < 500, w'))"

section \<open>app/permission.py: the strategy resolver\<close>

text \<open>
  The request body of \<^verbatim>\<open>/onboard\<close> (\<open>AppOnboardRequest\<close>), as the dict that
  \<^verbatim>\<open>model_dump()\<close> hands to the resolver (its key \<^verbatim>\<open>type\<close> is \<open>app_type\<close> here).
  The resolver reads \<open>url\<close> only.
\<close>

record app =
  app_type :: string
  framework :: "string option"
  url :: string
  env :: "string option"

text \<open>A decision is the Python dict the resolver returns.\<close>

type_synonym decision = "string \<rightharpoonup> pyval"

definition monitorable_decision :: "string \<Rightarrow> string \<Rightarrow> string \<Rightarrow> decision" where
  "monitorable_decision strategy confidence details =
     [''monitorable'' \<mapsto> PBool True,
      ''strategy'' \<mapsto> PStr strategy,
      ''confidence'' \<mapsto> PStr confidence,
      ''details'' \<mapsto> PStr details]"

definition unmonitorable_decision :: decision where
  "unmonitorable_decision =
     [''monitorable'' \<mapsto> PBool False,
      ''strategy'' \<mapsto> PNone,
      ''confidence'' \<mapsto> PStr ''none'',
      ''details'' \<mapsto> PStr ''No metrics or telemetry endpoints detected'',
      ''next_steps'' \<mapsto> PList [''Expose /metrics'',
                                 ''Enable OpenTelemetry SDK'',
                                 ''Deploy OpenTelemetry Collector'',
                                 ''Use blackbox exporter'']]"

text \<open>
  The chain of probes of \<open>detect_monitoring_strategy\<close>, after the URL has been parsed and
  the headers fetched. Each probe runs in the state the one before left.
\<close>

definition probe_chain ::
  "'w network \<Rightarrow> string \<Rightarrow> string option \<Rightarrow> (string \<times> string) list \<Rightarrow> 'w \<Rightarrow> decision \<times> 'w" where
  "probe_chain net base_url host hdrs w0 =
     (case check_prometheus_metrics net base_url w0 of
        (True, w1) \<Rightarrow>
          (monitorable_decision ''prometheus'' ''high'' ''/metrics endpoint detected'', w1)
      | (False, w1) \<Rightarrow>
     (case check_prometheus_auth net base_url w1 of
        (True, w2) \<Rightarrow>
          (monitorable_decision ''prometheus-auth'' ''medium''
             ''/metrics exists but requires auth'', w2)
      | (False, w2) \<Rightarrow>
     (case check_otlp_http net base_url w2 of
        (True, w3) \<Rightarrow>
          (monitorable_decision ''opentelemetry-http'' ''high''
             ''OTLP HTTP endpoint detected'', w3)
      | (False, w3) \<Rightarrow>
     (case check_otlp_grpc net host w3 of
        (True, w4) \<Rightarrow>
          (monitorable_decision ''opentelemetry-grpc'' ''high''
             ''OTLP gRPC endpoint detected on port 4317'', w4)
      | (False, w4) \<Rightarrow>
     (case check_statsd net host w4 of
        (True, w5) \<Rightarrow>
          (monitorable_decision ''statsd'' ''medium''
             ''StatsD-compatible agent detected'', w5)
      | (False, w5) \<Rightarrow>
     if detect_kubernetes_env hdrs then
       (monitorable_decision ''kubernetes-auto'' ''medium''
          ''Kubernetes environment detected'', w5)
     else
     (case detect_cloud_provider hdrs of
        Some cloud \<Rightarrow>
          (monitorable_decision (cloud @ ''-cloud-metrics'') ''low''
             (upper cloud @ '' headers detected''), w5)
      | None \<Rightarrow>
     (case check_blackbox_http net base_url w5 of
        (True, w6) \<Rightarrow>
          (monitorable_decision ''blackbox-http'' ''low''
             ''Only uptime / latency monitoring possible'', w6)
      | (False, w6) \<Rightarrow> (unmonitorable_decision, w6))))))))"

text \<open>
  \<open>urlparse_hostname\<close> stands for the standard library's
  \<^verbatim>\<open>urlparse(base_url).hostname\<close>: it raises \<open>ValueError\<close> on a URL it cannot parse
  (an unmatched bracket in the network location), and gives \<open>None\<close> for a URL without a
  host. The call is outside every \<^verbatim>\<open>try\<close>; the header fetch is inside one.
\<close>

definition detect_monitoring_strategy ::
  "(string \<Rightarrow> py_exception + string option) \<Rightarrow> 'w network \<Rightarrow> app \<Rightarrow> 'w
     \<Rightarrow> (py_exception + decision) \<times> 'w" where
  "detect_monitoring_strategy urlparse_hostname net a w =
     (let base_url = url a in
      case urlparse_hostname base_url of
        Inl e \<Rightarrow> (Inl e, w)
      | Inr host \<Rightarrow>
          (case requests_get net base_url (Some 2) w of
             (r, w0) \<Rightarrow>
               let hdrs = (case r of Inl e \<Rightarrow> [] | Inr resp \<Rightarrow> headers resp);
                   (d, w') = probe_chain net base_url host hdrs w0
               in (Inr d, w')))"

section \<open>The priority table of the specification\<close>

text \<open>
  The specification's algorithm, in its own words: the candidate strategies are evaluated
  in strict priority order, and the first candidate whose probe succeeds gives the
  decision. A row is a probe with the strategy and the confidence of its line of the
  table; the two header rows inspect the headers fetched before the chain starts.
\<close>

type_synonym 'w row = "('w \<Rightarrow> bool \<times> 'w) \<times> string \<times> string"

definition spec_rows ::
  "'w network \<Rightarrow> string \<Rightarrow> string option \<Rightarrow> (string \<times> string) list \<Rightarrow> 'w row list" where
  "spec_rows net base_url host hdrs =
     [(check_prometheus_metrics net base_url, ''prometheus'', ''high''),
      (check_prometheus_auth net base_url, ''prometheus-auth'', ''medium''),
      (check_otlp_http net base_url, ''opentelemetry-http'', ''high''),
      (check_otlp_grpc net host, ''opentelemetry-grpc'', ''high''),
      (check_statsd net host, ''statsd'', ''medium''),
      (Pair (detect_kubernetes_env hdrs), ''kubernetes-auto'', ''medium''),
      (Pair (detect_cloud_provider hdrs \<noteq> None),
         (case detect_cloud_provider hdrs of Some provider \<Rightarrow> provider | None \<Rightarrow> [])
           @ ''-cloud-metrics'', ''low''),
      (check_blackbox_http net base_url, ''blackbox-http'', ''low'')]"

fun first_success :: "'w row list \<Rightarrow> 'w \<Rightarrow> (string \<times> string) option \<times> 'w" where
  "first_success [] w = (None, w)"
| "first_success ((probe, strategy, confidence) # rows) w =
     (case probe w of
        (True, w') \<Rightarrow> (Some (strategy, confidence), w')
      | (False, w') \<Rightarrow> first_success rows w')"

text \<open>Every probe of the list, run one after the other, fails.\<close>

fun all_fail :: "('w \<Rightarrow> bool \<times> 'w) list \<Rightarrow> 'w \<Rightarrow> bool" where
  "all_fail [] w = True"
| "all_fail (probe # probes) w = (case probe w of (ok, w') \<Rightarrow> \<not> ok \<and> all_fail probes w')"

text \<open>The eight probes of the resolver, in the order in which it runs them.\<close>

definition probes ::
  "'w network \<Rightarrow> string \<Rightarrow> string option \<Rightarrow> (string \<times> string) list
     \<Rightarrow> ('w \<Rightarrow> bool \<times> 'w) list" where
  "probes net base_url host hdrs =
     [check_prometheus_metrics net base_url,
      check_prometheus_auth net base_url,
      check_otlp_http net base_url,
      check_otlp_grpc net host,
      check_statsd net host,
      Pair (detect_kubernetes_env hdrs),
      Pair (detect_cloud_provider hdrs \<noteq> None),
      check_blackbox_http net base_url]"

text \<open>The strategy and the confidence a decision carries, when its strategy is not \<open>None\<close>.\<close>

definition strategy_and_confidence :: "decision \<Rightarrow> (string \<times> string) option" where
  "strategy_and_confidence d =
     (case (d ''strategy'', d ''confidence'') of
        (Some (PStr s), Some (PStr c)) \<Rightarrow> Some (s, c)
      | _ \<Rightarrow> None)"

text \<open>The headers the resolver works with, from the outcome of its first GET.\<close>

definition fetched_headers :: "py_exception + response \<Rightarrow> (string \<times> string) list" where
  "fetched_headers r = (case r of Inl e \<Rightarrow> [] | Inr resp \<Rightarrow> headers resp)"

section \<open>Decisions and observations\<close>

text \<open>Whether a decision carries a strategy: the key is there and its value is not \<open>None\<close>.\<close>

definition strategy_present :: "decision \<Rightarrow> bool" where
  "strategy_present d =
     (case d ''strategy'' of None \<Rightarrow> False | Some PNone \<Rightarrow> False | Some v \<Rightarrow> True)"

text \<open>The dicts that the \<^verbatim>\<open>return\<close> statements of the resolver build.\<close>

definition resolver_decisions :: "decision list" where
  "resolver_decisions =
     [monitorable_decision ''prometheus'' ''high'' ''/metrics endpoint detected'',
      monitorable_decision ''prometheus-auth'' ''medium'' ''/metrics exists but requires auth'',
      monitorable_decision ''opentelemetry-http'' ''high'' ''OTLP HTTP endpoint detected'',
      monitorable_decision ''opentelemetry-grpc'' ''high''
        ''OTLP gRPC endpoint detected on port 4317'',
      monitorable_decision ''statsd'' ''medium'' ''StatsD-compatible agent detected'',
      monitorable_decision ''kubernetes-auto'' ''medium'' ''Kubernetes environment detected'',
      monitorable_decision ''aws-cloud-metrics'' ''low'' ''AWS headers detected'',
      monitorable_decision ''gcp-cloud-metrics'' ''low'' ''GCP headers detected'',
      monitorable_decision ''azure-cloud-metrics'' ''low'' ''AZURE headers detected'',
      monitorable_decision ''blackbox-http'' ''low'' ''Only uptime / latency monitoring possible'',
      unmonitorable_decision]"

text \<open>
  The resolver's chain as an ordered list of probes, each with the decision it stands
  for; \<open>first_decision\<close> returns the decision of the first probe that succeeds.
\<close>

fun first_decision :: "(('w \<Rightarrow> bool \<times> 'w) \<times> decision) list \<Rightarrow> decision \<Rightarrow> 'w \<Rightarrow> decision \<times> 'w" where
  "first_decision [] fallback w = (fallback, w)"
| "first_decision ((probe, d) # rows) fallback w =
     (case probe w of
        (True, w') \<Rightarrow> (d, w')
      | (False, w') \<Rightarrow> first_decision rows fallback w')"

definition decision_rows ::
  "(string \<times> string) list \<Rightarrow> decision list" where
  "decision_rows hdrs =
     [monitorable_decision ''prometheus'' ''high'' ''/metrics endpoint detected'',
      monitorable_decision ''prometheus-auth'' ''medium'' ''/metrics exists but requires auth'',
      monitorable_decision ''opentelemetry-http'' ''high'' ''OTLP HTTP endpoint detected'',
      monitorable_decision ''opentelemetry-grpc'' ''high''
        ''OTLP gRPC endpoint detected on port 4317'',
      monitorable_decision ''statsd'' ''medium'' ''StatsD-compatible agent detected'',
      monitorable_decision ''kubernetes-auto'' ''medium'' ''Kubernetes environment detected'',
      (case detect_cloud_provider hdrs of
         Some cloud \<Rightarrow> monitorable_decision (cloud @ ''-cloud-metrics'') ''low''
                         (upper cloud @ '' headers detected'')
       | None \<Rightarrow> unmonitorable_decision),
      monitorable_decision ''blackbox-http'' ''low'' ''Only uptime / latency monitoring possible'']"

text \<open>
  What a run observes of its probes: the success or failure of each probe it runs, in
  order, up to the first that succeeds. \<open>probe_outcomes\<close> pairs them with the headers that
  the first GET fetched; it is \<open>None\<close> when the URL does not parse and no probe runs.
\<close>

fun observed_results :: "('w \<Rightarrow> bool \<times> 'w) list \<Rightarrow> 'w \<Rightarrow> bool list" where
  "observed_results [] w = []"
| "observed_results (probe # rest) w =
     (case probe w of
        (True, w') \<Rightarrow> [True]
      | (False, w') \<Rightarrow> False # observed_results rest w')"

definition probe_outcomes ::
  "(string \<Rightarrow> py_exception + string option) \<Rightarrow> 'w network \<Rightarrow> app \<Rightarrow> 'w
     \<Rightarrow> ((string \<times> string) list \<times> bool list) option" where
  "probe_outcomes urlparse_hostname net a w =
     (case urlparse_hostname (url a) of
        Inl e \<Rightarrow> None
      | Inr host \<Rightarrow>
          (case requests_get net (url a) (Some 2) w of
             (r, w0) \<Rightarrow>
               Some (fetched_headers r,
                     observed_results (probes net (url a) host (fetched_headers r)) w0)))"

text \<open>The decision that a list of probe results selects from a list of decisions.\<close>

fun selected :: "decision list \<Rightarrow> decision \<Rightarrow> bool list \<Rightarrow> decision" where
  "selected (d # ds) fallback (True # results) = d"
| "selected (d # ds) fallback (False # results) = selected ds fallback results"
| "selected ds fallback results = fallback"

text \<open>A network whose answers do not depend on its state: the target does not change.\<close>

definition unchanging :: "'w network \<Rightarrow> bool" where
  "unchanging net \<longleftrightarrow>
     (\<forall>u t w w'. fst (requests_get net u t w) = fst (requests_get net u t w'))
   \<and> (\<forall>u t w w'. fst (requests_post net u t w) = fst (requests_post net u t w'))
   \<and> (\<forall>h p t w w'. fst (create_connection net h p t w) = fst (create_connection net h p t w'))"

text \<open>\<open>blind f\<close>: the result of \<open>f\<close> does not depend on the state of the network.\<close>

definition blind :: "('w \<Rightarrow> 'a \<times> 'w) \<Rightarrow> bool" where
  "blind f \<longleftrightarrow> (\<forall>w w'. fst (f w) = fst (f w'))"

section \<open>Python conversions used by the persistence layer\<close>

text \<open>
  \<open>str_int\<close> is \<^verbatim>\<open>str\<close> of an integer. \<open>isdigit\<close> is \<^verbatim>\<open>str.isdigit()\<close>: among
  the characters below 256 it accepts the ten digits and the superscripts two, three and
  one. \<open>int_raises\<close> tells when \<^verbatim>\<open>int\<close> of such a string raises \<open>ValueError\<close>: when
  it holds a superscript, or more digits than the interpreter converts (4300 unless
  configured otherwise); \<open>int_of\<close> is the integer it gives otherwise.
\<close>

definition digit_char :: "nat \<Rightarrow> char" where
  "digit_char n = ''0123456789'' ! (n mod 10)"

fun str_nat :: "nat \<Rightarrow> string" where
  "str_nat n = (if n < 10 then [digit_char n] else str_nat (n div 10) @ [digit_char n])"

declare str_nat.simps [simp del]

definition str_int :: "int \<Rightarrow> string" where
  "str_int i = (if i < 0 then CHR ''-'' # str_nat (nat (- i)) else str_nat (nat i))"

definition is_digit :: "char \<Rightarrow> bool" where
  "is_digit c \<longleftrightarrow> c \<in> set ''0123456789''"

definition isdigit_char :: "char \<Rightarrow> bool" where
  "isdigit_char c \<longleftrightarrow> is_digit c \<or> c \<in> set [CHR 0xB2, CHR 0xB3, CHR 0xB9]"

definition isdigit :: "string \<Rightarrow> bool" where
  "isdigit s \<longleftrightarrow> s \<noteq> [] \<and> list_all isdigit_char s"

definition INT_MAX_STR_DIGITS :: nat where
  "INT_MAX_STR_DIGITS = 4300"

definition int_raises :: "string \<Rightarrow> bool" where
  "int_raises s \<longleftrightarrow> \<not> list_all is_digit s \<or> INT_MAX_STR_DIGITS < length s"

definition digit_value :: "char \<Rightarrow> int" where
  "digit_value c = (case map_of (zip ''0123456789'' [0, 1, 2, 3, 4, 5, 6, 7, 8, 9]) c of
                      Some v \<Rightarrow> v | None \<Rightarrow> 0)"

definition int_of :: "string \<Rightarrow> int" where
  "int_of s = foldl (\<lambda>n c. 10 * n + digit_value c) 0 s"

text \<open>
  \<open>float_parses s\<close>: whether \<^verbatim>\<open>float(s)\<close> returns instead of raising
  \<^verbatim>\<open>ValueError\<close>. After the white space at both ends is stripped (space, tab, line
  feed, vertical tab, form feed, carriage return, and the two spaces above 127), the
  string must be an optional sign followed by \<^verbatim>\<open>inf\<close>, \<^verbatim>\<open>infinity\<close> or
  \<^verbatim>\<open>nan\<close> in any case, or by a decimal number: digits with single underscores between
  them, a point, an exponent.
\<close>

definition is_space :: "char \<Rightarrow> bool" where
  "is_space c \<longleftrightarrow> c \<in> set [CHR '' '', CHR 0x09, CHR 0x0A, CHR 0x0B, CHR 0x0C, CHR 0x0D,
                              CHR 0x85, CHR 0xA0]"

definition strip :: "string \<Rightarrow> string" where
  "strip s = rev (dropWhile is_space (rev (dropWhile is_space s)))"

definition drop_sign :: "string \<Rightarrow> string" where
  "drop_sign s = (case s of c # rest \<Rightarrow> if c = CHR ''+'' \<or> c = CHR ''-'' then rest else s
                          | [] \<Rightarrow> [])"

fun skip_digits :: "string \<Rightarrow> string" where
  "skip_digits [] = []"
| "skip_digits [c] = (if is_digit c then [] else [c])"
| "skip_digits (c # d # s) =
     (if is_digit c then skip_digits (d # s)
      else if c = CHR ''_'' \<and> is_digit d then skip_digits s
      else c # d # s)"

text \<open>The rest of the string after the digits it starts with, if it starts with a digit.\<close>

definition digitpart :: "string \<Rightarrow> string option" where
  "digitpart s = (case s of c # rest \<Rightarrow> if is_digit c then Some (skip_digits rest) else None
                          | [] \<Rightarrow> None)"

definition number_part :: "string \<Rightarrow> string option" where
  "number_part s =
     (case digitpart s of
        Some r1 \<Rightarrow>
          (case r1 of
             c # r2 \<Rightarrow>
               if c = CHR ''.'' then (case digitpart r2 of Some r3 \<Rightarrow> Some r3 | None \<Rightarrow> Some r2)
               else Some r1
           | [] \<Rightarrow> Some [])
      | None \<Rightarrow>
          (case s of c # r2 \<Rightarrow> if c = CHR ''.'' then digitpart r2 else None
                   | [] \<Rightarrow> None))"

definition floatnumber :: "string \<Rightarrow> bool" where
  "floatnumber s =
     (case number_part s of
        None \<Rightarrow> False
      | Some [] \<Rightarrow> True
      | Some (c # r) \<Rightarrow> (c = CHR ''e'' \<or> c = CHR ''E'') \<and> digitpart (drop_sign r) = Some [])"

definition float_parses :: "string \<Rightarrow> bool" where
  "float_parses s =
     (let u = drop_sign (strip s)
      in lower u \<in> set [''inf'', ''infinity'', ''nan''] \<or> floatnumber u)"

text \<open>\<^verbatim>\<open>str(v)\<close> for the values a strategy dict holds.\<close>

definition py_str :: "pyval \<Rightarrow> string" where
  "py_str v = (case v of
                 PNone \<Rightarrow> ''None''
               | PBool b \<Rightarrow> (if b then ''True'' else ''False'')
               | PInt i \<Rightarrow> str_int i
               | PStr s \<Rightarrow> s
               | PList xs \<Rightarrow> str_list xs)"

section \<open>app/redis\_client.py\<close>

text \<open>
  The Redis server as the client sees it: whether commands reach it, and the hashes it
  stores. \<^verbatim>\<open>HSET\<close> sets the given fields of the hash at the key and leaves its other
  fields as they are; the client refuses an empty mapping before it sends anything.
  \<^verbatim>\<open>HGETALL\<close> of a key that is not there gives the empty dict.
\<close>

record redis =
  reachable :: bool
  hashes :: "string \<rightharpoonup> (string \<rightharpoonup> string)"

definition hset :: "string \<Rightarrow> (string \<rightharpoonup> string) \<Rightarrow> redis \<Rightarrow> py_exception + redis" where
  "hset name mapping db =
     (if mapping = Map.empty then Inl RedisDataError
      else if \<not> reachable db then Inl RedisConnectionError
      else Inr (db\<lparr>hashes := (hashes db)
                  (name \<mapsto> (case hashes db name of None \<Rightarrow> mapping | Some h \<Rightarrow> h ++ mapping))\<rparr>))"

definition hgetall :: "string \<Rightarrow> redis \<Rightarrow> py_exception + (string \<rightharpoonup> string)" where
  "hgetall name db =
     (if \<not> reachable db then Inl RedisConnectionError
      else Inr (case hashes db name of None \<Rightarrow> Map.empty | Some h \<Rightarrow> h))"

definition redis_delete :: "string \<Rightarrow> redis \<Rightarrow> py_exception + redis" where
  "redis_delete name db =
     (if \<not> reachable db then Inl RedisConnectionError
      else Inr (db\<lparr>hashes := (hashes db)(name := None)\<rparr>))"

text \<open>The three branches of the loop of \<open>_serialize_strategy\<close>, and the loop over the dict.\<close>

definition serialize_value :: "pyval \<Rightarrow> string" where
  "serialize_value v = (case v of PBool b \<Rightarrow> py_str (PBool b)
                                | PNone \<Rightarrow> ''None''
                                | _ \<Rightarrow> py_str v)"

definition serialize_strategy :: "decision \<Rightarrow> (string \<rightharpoonup> string)" where
  "serialize_strategy strategy_info = (\<lambda>k. map_option serialize_value (strategy_info k))"

text \<open>Both handlers of \<open>save_monitoring_strategy\<close> print and re-raise.\<close>

definition save_monitoring_strategy :: "string \<Rightarrow> decision \<Rightarrow> redis \<Rightarrow> py_exception + redis" where
  "save_monitoring_strategy app_name strategy_info db =
     (case hset (''app:'' @ app_name) (serialize_strategy strategy_info) db of
        Inl e \<Rightarrow> Inl e
      | Inr db' \<Rightarrow> Inr db')"

text \<open>
  A value as \<open>get_monitoring_strategy\<close> returns it: a Python value, or the float that
  \<^verbatim>\<open>float\<close> made of the text given (the float itself is not modelled).
  \<open>decode_value\<close> is the body of its loop: \<^verbatim>\<open>int(v)\<close> is outside the \<^verbatim>\<open>try\<close>
  around \<^verbatim>\<open>float(v)\<close>, and no handler of the function catches its \<open>ValueError\<close>.
\<close>

datatype fetched = Value pyval | FloatOf string

definition decode_value :: "string \<Rightarrow> py_exception + fetched" where
  "decode_value v =
     (if v = ''True'' then Inr (Value (PBool True))
      else if v = ''False'' then Inr (Value (PBool False))
      else if v = ''None'' then Inr (Value PNone)
      else if isdigit v then
        (if int_raises v then Inl ValueError else Inr (Value (PInt (int_of v))))
      else if float_parses v then Inr (FloatOf v)
      else Inr (Value (PStr v)))"

definition get_monitoring_strategy ::
  "string \<Rightarrow> redis \<Rightarrow> py_exception + (string \<rightharpoonup> fetched) option" where
  "get_monitoring_strategy app_name db =
     (case hgetall (''app:'' @ app_name) db of
        Inl e \<Rightarrow> Inl e
      | Inr data \<Rightarrow>
          if data = Map.empty then Inr None
          else if \<exists>v \<in> ran data. isl (decode_value v) then Inl ValueError
          else Inr (Some (\<lambda>k. map_option (projr \<circ> decode_value) (data k))))"

definition delete_monitoring_strategy :: "string \<Rightarrow> redis \<Rightarrow> py_exception + redis" where
  "delete_monitoring_strategy app_name db =
     (case redis_delete (''app:'' @ app_name) db of
        Inl e \<Rightarrow> Inl e
      | Inr db' \<Rightarrow> Inr db')"

text \<open>A decision as a fetched dict, and running one call after another that may raise.\<close>

definition as_fetched :: "decision \<Rightarrow> (string \<rightharpoonup> fetched)" where
  "as_fetched d = (\<lambda>k. map_option Value (d k))"

definition then_do :: "py_exception + 'a \<Rightarrow> ('a \<Rightarrow> py_exception + 'b) \<Rightarrow> py_exception + 'b" where
  "then_do r f = (case r of Inl e \<Rightarrow> Inl e | Inr x \<Rightarrow> f x)"

text \<open>A string that comes back from the store as the string it was.\<close>

definition plain_string :: "string \<Rightarrow> bool" where
  "plain_string s \<longleftrightarrow>
     s \<noteq> ''True'' \<and> s \<noteq> ''False'' \<and> s \<noteq> ''None'' \<and> \<not> isdigit s \<and> \<not> float_parses s"

section \<open>app/prometheus\_dynamic.py\<close>

text \<open>
  What \<^verbatim>\<open>yaml.safe_load\<close> returns: null, booleans, integers, strings, lists and
  mappings with string keys, each key once.
\<close>

datatype yaml = YNull | YBool bool | YInt int | YStr string | YList "yaml list"
  | YMap "(string \<times> yaml) list"

text \<open>Python's truth value, for \<^verbatim>\<open>yaml.safe_load(f) or {}\<close>.\<close>

definition truthy :: "yaml \<Rightarrow> bool" where
  "truthy y = (case y of YNull \<Rightarrow> False | YBool b \<Rightarrow> b | YInt i \<Rightarrow> i \<noteq> 0
               | YStr s \<Rightarrow> s \<noteq> [] | YList xs \<Rightarrow> xs \<noteq> [] | YMap m \<Rightarrow> m \<noteq> [])"

text \<open>
  The argument of \<open>add_prometheus_scrape_job\<close>, with the keys and the types of values that
  its docstring names and its caller passes; \<open>None\<close> stands for a key that is missing.
\<close>

record scrape_config =
  job_name :: "string option"
  metrics_path :: "string option"
  targets :: "string option list option"
  auth_required :: "bool option"

text \<open>
  The state outside the program: the state of the network, what loading
  \<^verbatim>\<open>/etc/prometheus/prometheus.yml\<close> gives (an exception when the file cannot be opened
  or parsed), whether writing the file fails (with the exception raised and what the file
  holds afterwards), and the Redis server.
\<close>

record 'w system =
  network_state :: 'w
  prometheus_yml :: "py_exception + yaml"
  write_failure :: "(py_exception \<times> (py_exception + yaml)) option"
  store :: redis

definition PROMETHEUS_RELOAD_URL :: string where
  "PROMETHEUS_RELOAD_URL = ''http://localhost:9090/-/reload''"

definition load_config :: "py_exception + yaml \<Rightarrow> py_exception + yaml" where
  "load_config file = (case file of Inl e \<Rightarrow> Inl e
                                  | Inr y \<Rightarrow> Inr (if truthy y then y else YMap []))"

text \<open>
  \<^verbatim>\<open>if "scrape_configs" not in config: config["scrape_configs"] = []\<close>, followed by the
  read of \<^verbatim>\<open>config["scrape_configs"]\<close>. A config that is not a mapping raises
  \<open>TypeError\<close> in one of the three: a number or a boolean in the test, a string or a list
  in the assignment or in the read.
\<close>

definition with_scrape_configs :: "yaml \<Rightarrow> py_exception + (string \<times> yaml) list" where
  "with_scrape_configs config =
     (case config of
        YMap m \<Rightarrow> Inr (case map_of m ''scrape_configs'' of
                         None \<Rightarrow> m @ [(''scrape_configs'', YList [])]
                       | Some v \<Rightarrow> m)
      | _ \<Rightarrow> Inl TypeError)"

text \<open>
  \<^verbatim>\<open>[job["job_name"] for job in config["scrape_configs"]]\<close>. Iterating over null, a
  number or a boolean raises \<open>TypeError\<close>, and so does indexing a character of a string or
  a key of a mapping with \<^verbatim>\<open>"job_name"\<close>; the empty string and the empty mapping
  give the empty list.
\<close>

definition job_name_of :: "yaml \<Rightarrow> py_exception + yaml" where
  "job_name_of job =
     (case job of
        YMap m \<Rightarrow> (case map_of m ''job_name'' of None \<Rightarrow> Inl KeyError | Some v \<Rightarrow> Inr v)
      | _ \<Rightarrow> Inl TypeError)"

fun job_names :: "yaml list \<Rightarrow> py_exception + yaml list" where
  "job_names [] = Inr []"
| "job_names (job # jobs) =
     (case job_name_of job of
        Inl e \<Rightarrow> Inl e
      | Inr n \<Rightarrow> (case job_names jobs of Inl e \<Rightarrow> Inl e | Inr ns \<Rightarrow> Inr (n # ns)))"

definition existing_jobs :: "yaml \<Rightarrow> py_exception + yaml list" where
  "existing_jobs v =
     (case v of
        YList jobs \<Rightarrow> job_names jobs
      | YStr s \<Rightarrow> if s = [] then Inr [] else Inl TypeError
      | YMap m \<Rightarrow> if m = [] then Inr [] else Inl TypeError
      | _ \<Rightarrow> Inl TypeError)"

text \<open>The load phase: the config, its \<^verbatim>\<open>scrape_configs\<close> and the names of the jobs there.\<close>

definition load_jobs ::
  "py_exception + yaml \<Rightarrow> py_exception + ((string \<times> yaml) list \<times> yaml \<times> yaml list)" where
  "load_jobs file =
     then_do (load_config file) (\<lambda>loaded.
     then_do (with_scrape_configs loaded) (\<lambda>config.
       case map_of config ''scrape_configs'' of
         None \<Rightarrow> Inl KeyError
       | Some v \<Rightarrow> then_do (existing_jobs v) (\<lambda>names. Inr (config, v, names))))"

definition job_entry :: "scrape_config \<Rightarrow> string \<Rightarrow> yaml" where
  "job_entry sc name =
     YMap ([(''job_name'', YStr name),
            (''metrics_path'', YStr (case metrics_path sc of Some p \<Rightarrow> p | None \<Rightarrow> ''/metrics'')),
            (''static_configs'',
               YList [YMap [(''targets'',
                  YList (case targets sc of
                           Some ts \<Rightarrow> map (\<lambda>t. case t of Some h \<Rightarrow> YStr h | None \<Rightarrow> YNull) ts
                         | None \<Rightarrow> []))]])]
           @ (if auth_required sc = Some True
              then [(''basic_auth'', YMap [(''username'', YStr ''PROM_USER''),
                                          (''password'', YStr ''PROM_PASS'')])]
              else []))"

text \<open>\<^verbatim>\<open>config["scrape_configs"].append(job_entry)\<close>: only a list has \<^verbatim>\<open>append\<close>.\<close>

definition append_job :: "yaml \<Rightarrow> yaml \<Rightarrow> py_exception + yaml" where
  "append_job v entry = (case v of YList jobs \<Rightarrow> Inr (YList (jobs @ [entry]))
                                 | _ \<Rightarrow> Inl AttributeError)"

definition set_key :: "string \<Rightarrow> yaml \<Rightarrow> (string \<times> yaml) list \<Rightarrow> (string \<times> yaml) list" where
  "set_key key v m = map (\<lambda>(k, old). if k = key then (k, v) else (k, old)) m"

text \<open>The body of the \<^verbatim>\<open>try\<close> of \<open>add_prometheus_scrape_job\<close>.\<close>

definition add_job_try ::
  "'w network \<Rightarrow> scrape_config \<Rightarrow> 'w system \<Rightarrow> (py_exception + bool) \<times> 'w system" where
  "add_job_try net sc s =
     (case load_jobs (prometheus_yml s) of
        Inl e \<Rightarrow> (Inl e, s)
      | Inr (config, v, existing) \<Rightarrow>
          (case job_name sc of
             None \<Rightarrow> (Inl KeyError, s)
           | Some name \<Rightarrow>
               if YStr name \<in> set existing then (Inr False, s)
               else
                 (case append_job v (job_entry sc name) of
                    Inl e \<Rightarrow> (Inl e, s)
                  | Inr jobs' \<Rightarrow>
                      (case write_failure s of
                         Some (e, left) \<Rightarrow> (Inl e, s\<lparr>prometheus_yml := left\<rparr>)
                       | None \<Rightarrow>
                           let s1 = s\<lparr>prometheus_yml :=
                                       Inr (YMap (set_key ''scrape_configs'' jobs' config))\<rparr>
                           in (case requests_post net PROMETHEUS_RELOAD_URL None
                                      (network_state s1) of
                                 (Inl e, w') \<Rightarrow> (Inl e, s1\<lparr>network_state := w'\<rparr>)
                               | (Inr r, w') \<Rightarrow>
                                   (Inr (status_code r = 200), s1\<lparr>network_state := w'\<rparr>))))))"

definition add_prometheus_scrape_job ::
  "'w network \<Rightarrow> scrape_config \<Rightarrow> 'w system \<Rightarrow> bool \<times> 'w system" where
  "add_prometheus_scrape_job net sc s =
     (case add_job_try net sc s of
        (Inl e, s') \<Rightarrow> (False, s')
      | (Inr ok, s') \<Rightarrow> (ok, s'))"

text \<open>
  \<open>configure_prometheus_scrape\<close> builds the scrape config and returns it: the flag that
  \<open>add_prometheus_scrape_job\<close> returns is dropped. \<^verbatim>\<open>f"auto_{hostname}"\<close> of
  \<^verbatim>\<open>None\<close> is \<^verbatim>\<open>auto_None\<close>.
\<close>

definition configure_prometheus_scrape ::
  "(string \<Rightarrow> py_exception + string option) \<Rightarrow> 'w network \<Rightarrow> string \<Rightarrow> bool \<Rightarrow> 'w system
     \<Rightarrow> (py_exception + scrape_config) \<times> 'w system" where
  "configure_prometheus_scrape urlparse_hostname net u auth s =
     (case urlparse_hostname u of
        Inl e \<Rightarrow> (Inl e, s)
      | Inr hostname \<Rightarrow>
          let sc = \<lparr>job_name = Some (''auto_'' @ (case hostname of Some h \<Rightarrow> h | None \<Rightarrow> ''None'')),
                    metrics_path = Some ''/metrics'',
                    targets = Some [hostname],
                    auth_required = Some auth\<rparr>;
              (ok, s') = add_prometheus_scrape_job net sc s
          in (Inr sc, s'))"

section \<open>app/permission.py: the actions\<close>

text \<open>
  What \<open>apply_monitoring_strategy\<close> returns, without the fixed lists of metric names that
  the configuration builders add: the builders only print and return their dict.
\<close>

datatype action =
    ScrapeConfigured scrape_config
  | OtlpPipeline string "string option"
  | StatsdExporter "string option" nat
  | K8sAutodiscovery
  | CloudMonitoring string
  | BlackboxExporter string
  | Skipped

definition endswith :: "string \<Rightarrow> string \<Rightarrow> bool" where
  "endswith s suffix = startswith (rev s) (rev suffix)"

definition py_truthy :: "pyval option \<Rightarrow> bool" where
  "py_truthy v = (case v of None \<Rightarrow> False | Some PNone \<Rightarrow> False | Some (PBool b) \<Rightarrow> b
                  | Some (PInt i) \<Rightarrow> i \<noteq> 0 | Some (PStr s) \<Rightarrow> s \<noteq> []
                  | Some (PList xs) \<Rightarrow> xs \<noteq> [])"

text \<open>
  The last two branches: \<^verbatim>\<open>logs_enabled\<close> leads to \<^verbatim>\<open>app["name"]\<close>, a key the
  request body does not have.
\<close>

definition logs_or_skipped :: "decision \<Rightarrow> py_exception + action" where
  "logs_or_skipped strategy_info =
     (if py_truthy (strategy_info ''logs_enabled'') then Inl KeyError else Inr Skipped)"

definition apply_monitoring_strategy ::
  "(string \<Rightarrow> py_exception + string option) \<Rightarrow> 'w network \<Rightarrow> app \<Rightarrow> decision \<Rightarrow> 'w system
     \<Rightarrow> (py_exception + action) \<times> 'w system" where
  "apply_monitoring_strategy urlparse_hostname net a strategy_info s =
     (let strategy = strategy_info ''strategy''; base_url = url a in
      if strategy = Some (PStr ''prometheus'') then
        (case configure_prometheus_scrape urlparse_hostname net base_url False s of
           (Inl e, s') \<Rightarrow> (Inl e, s') | (Inr sc, s') \<Rightarrow> (Inr (ScrapeConfigured sc), s'))
      else if strategy = Some (PStr ''prometheus-auth'') then
        (case configure_prometheus_scrape urlparse_hostname net base_url True s of
           (Inl e, s') \<Rightarrow> (Inl e, s') | (Inr sc, s') \<Rightarrow> (Inr (ScrapeConfigured sc), s'))
      else if strategy = Some (PStr ''opentelemetry-http'') then
        (Inr (OtlpPipeline ''http'' (Some base_url)), s)
      else if strategy = Some (PStr ''opentelemetry-grpc'') then
        (case urlparse_hostname base_url of
           Inl e \<Rightarrow> (Inl e, s) | Inr host \<Rightarrow> (Inr (OtlpPipeline ''grpc'' host), s))
      else if strategy = Some (PStr ''statsd'') then
        (case urlparse_hostname base_url of
           Inl e \<Rightarrow> (Inl e, s) | Inr host \<Rightarrow> (Inr (StatsdExporter host 8125), s))
      else if strategy = Some (PStr ''kubernetes-auto'') then (Inr K8sAutodiscovery, s)
      else if py_truthy strategy then
        (case strategy of
           Some (PStr name) \<Rightarrow>
             if endswith name ''cloud-metrics''
             then (Inr (CloudMonitoring (takeWhile (\<lambda>c. c \<noteq> CHR ''-'') name)), s)
             else if name = ''blackbox-http'' then (Inr (BlackboxExporter base_url), s)
             else (logs_or_skipped strategy_info, s)
         | _ \<Rightarrow> (Inl AttributeError, s))
      else (logs_or_skipped strategy_info, s))"

section \<open>app/main.py\<close>

text \<open>
  The body of a request to \<^verbatim>\<open>/onboard\<close>, validated: \<open>AppOnboardRequest\<close>. A pydantic
  \<open>HttpUrl\<close> is given by the text that \<^verbatim>\<open>str\<close> returns for it, which is the URL in
  pydantic's normal form: a request for \<^verbatim>\<open>http://svc.local\<close> holds
  \<open>HttpUrl ''http://svc.local/''\<close>, with the path \<^verbatim>\<open>/\<close> that the normal form adds.
\<close>

datatype http_url = HttpUrl string

definition str_http_url :: "http_url \<Rightarrow> string" where
  "str_http_url u = (case u of HttpUrl normal_form \<Rightarrow> normal_form)"

record app_onboard_request =
  request_type :: string
  request_framework :: "string option"
  request_url :: http_url
  request_env :: "string option"

text \<open>
  \<^verbatim>\<open>payload = app_data.model_dump()\<close> followed by
  \<^verbatim>\<open>payload["url"] = str(payload["url"])\<close>.
\<close>

definition model_dump_payload :: "app_onboard_request \<Rightarrow> app" where
  "model_dump_payload app_data =
     \<lparr>app_type = request_type app_data, framework = request_framework app_data,
      url = str_http_url (request_url app_data), env = request_env app_data\<rparr>"

text \<open>
  \<open>onboard_app\<close>: detect, apply, save under the URL of the payload, return the decision.
  An exception of any of the three steps ends the call.
\<close>

definition onboard_app ::
  "(string \<Rightarrow> py_exception + string option) \<Rightarrow> 'w network \<Rightarrow> app_onboard_request
     \<Rightarrow> 'w system \<Rightarrow> (py_exception + decision) \<times> 'w system" where
  "onboard_app urlparse_hostname net app_data s =
     (let payload = model_dump_payload app_data in
      case detect_monitoring_strategy urlparse_hostname net payload (network_state s) of
        (Inl e, w1) \<Rightarrow> (Inl e, s\<lparr>network_state := w1\<rparr>)
      | (Inr decision, w1) \<Rightarrow>
          (case apply_monitoring_strategy urlparse_hostname net payload decision
                  (s\<lparr>network_state := w1\<rparr>) of
             (Inl e, s2) \<Rightarrow> (Inl e, s2)
           | (Inr action_result, s2) \<Rightarrow>
               (case save_monitoring_strategy (url payload) decision (store s2) of
                  Inl e \<Rightarrow> (Inl e, s2)
                | Inr db' \<Rightarrow> (Inr decision, s2\<lparr>store := db'\<rparr>))))"

text \<open>\<open>get_saved_strategy\<close>: a key that holds nothing gives the "No strategy found" dict.\<close>

definition get_saved_strategy :: "string \<Rightarrow> redis \<Rightarrow> py_exception + (string \<rightharpoonup> fetched)" where
  "get_saved_strategy app_url db =
     (case get_monitoring_strategy app_url db of
        Inl e \<Rightarrow> Inl e
      | Inr None \<Rightarrow> Inr [''monitorable'' \<mapsto> Value (PBool False),
                          ''strategy'' \<mapsto> Value PNone,
                          ''confidence'' \<mapsto> Value (PStr ''none''),
                          ''details'' \<mapsto> Value (PStr ''No strategy found'')]
      | Inr (Some saved) \<Rightarrow> Inr saved)"

section \<open>Test doubles\<close>

text \<open>
  \<open>urlparse_table\<close> answers for the URLs of its table (\<open>lib_urlparse\<close> lists what the
  standard library answers for the three URLs used below), and
  \<open>table_network\<close> is a network that never changes: a GET or POST to a URL of its tables
  gets the response listed, a connection to a listed (host, port) succeeds, and every
  other call is refused.
\<close>

definition urlparse_table ::
  "(string \<times> (py_exception + string option)) list \<Rightarrow> string \<Rightarrow> py_exception + string option" where
  "urlparse_table tbl u = (case map_of tbl u of Some r \<Rightarrow> r | None \<Rightarrow> Inr None)"

definition table_reply :: "(string \<times> response) list \<Rightarrow> string \<Rightarrow> py_exception + response" where
  "table_reply tbl u = (case map_of tbl u of Some r \<Rightarrow> Inr r | None \<Rightarrow> Inl ConnectionRefused)"

definition table_network ::
  "(string \<times> response) list \<Rightarrow> (string \<times> response) list \<Rightarrow> (string option \<times> nat) list
     \<Rightarrow> 'w network" where
  "table_network gets posts listening =
     \<lparr>requests_get = (\<lambda>u t w. (table_reply gets u, w)),
      requests_post = (\<lambda>u t w. (table_reply posts u, w)),
      create_connection = (\<lambda>h p t w.
         (if (h, p) \<in> set listening then Inr () else Inl ConnectionRefused, w))\<rparr>"

definition svc_local :: app where
  "svc_local = \<lparr>app_type = ''backend'', framework = Some ''fastapi'',
                 url = ''http://svc.local'', env = Some ''prod''\<rparr>"

definition lib_urlparse :: "string \<Rightarrow> py_exception + string option" where
  "lib_urlparse = urlparse_table [(''http://svc.local'', Inr (Some ''svc.local'')),
                                  (''http://[::1'', Inl ValueError),
                                  (''svc.local'', Inr None)]"

definition metrics_page :: response where
  "metrics_page = \<lparr>status_code = 200, body_text = ''# HELP foo'', headers = []\<rparr>"

definition prometheus_network :: "unit network" where
  "prometheus_network = table_network [(''http://svc.local/metrics'', metrics_page)] [] []"

definition dead_network :: "unit network" where
  "dead_network = table_network [] [] []"

text \<open>
  A target whose URL \<^verbatim>\<open>urlparse\<close> rejects (\<^verbatim>\<open>ValueError: Invalid IPv6 URL\<close>, for
  the bracket that is never closed), and a target whose URL has no scheme and no host, so
  that its \<^verbatim>\<open>hostname\<close> is \<^verbatim>\<open>None\<close>.
\<close>

definition open_bracket :: app where
  "open_bracket = \<lparr>app_type = ''backend'', framework = None,
                    url = ''http://[::1'', env = Some ''prod''\<rparr>"

definition hostless :: app where
  "hostless = \<lparr>app_type = ''backend'', framework = None,
                url = ''svc.local'', env = Some ''prod''\<rparr>"

definition error_page :: response where
  "error_page = \<lparr>status_code = 500, body_text = ''Internal Server Error'', headers = []\<rparr>"

definition failing_metrics_network :: "unit network" where
  "failing_metrics_network = table_network [(''http://svc.local/metrics'', error_page)] [] []"

text \<open>A network where /metrics answers 418; with 500, as above, both probes of it fail.\<close>

definition teapot_page :: response where
  "teapot_page = \<lparr>status_code = 418, body_text = ''I am a teapot'', headers = []\<rparr>"

definition teapot_metrics_network :: "unit network" where
  "teapot_metrics_network = table_network [(''http://svc.local/metrics'', teapot_page)] [] []"

text \<open>A reachable Redis server that stores nothing yet.\<close>

definition empty_redis :: redis where
  "empty_redis = \<lparr>reachable = True, hashes = Map.empty\<rparr>"

definition prometheus_found :: decision where
  "prometheus_found = monitorable_decision ''prometheus'' ''high'' ''/metrics endpoint detected''"



definition svc_scrape :: scrape_config where
  "svc_scrape = \<lparr>job_name = Some ''auto_svc.local'', metrics_path = Some ''/metrics'',
                  targets = Some [Some ''svc.local''], auth_required = Some False\<rparr>"





definition machine ::
  "py_exception + yaml \<Rightarrow> (py_exception \<times> (py_exception + yaml)) option \<Rightarrow> redis \<Rightarrow> unit system" where
  "machine file failure db =
     \<lparr>network_state = (), prometheus_yml = file, write_failure = failure, store = db\<rparr>"

text \<open>
  Two requests to \<^verbatim>\<open>/onboard\<close> for \<^verbatim>\<open>http://svc.local\<close>, whose payload URL is
  \<^verbatim>\<open>http://svc.local/\<close>: the first while nothing answers, the second, in the state the
  first left, when the metrics page is served at the URL the first probe asks for,
  \<^verbatim>\<open>http://svc.local//metrics\<close>.
\<close>

definition svc_request :: app_onboard_request where
  "svc_request = \<lparr>request_type = ''backend'', request_framework = Some ''fastapi'',
                   request_url = HttpUrl ''http://svc.local/'', request_env = Some ''prod''\<rparr>"

definition request_urlparse :: "string \<Rightarrow> py_exception + string option" where
  "request_urlparse = urlparse_table [(''http://svc.local/'', Inr (Some ''svc.local''))]"

definition serving_network :: "unit network" where
  "serving_network = table_network [(''http://svc.local//metrics'', metrics_page)] [] []"

definition first_onboarding :: "(py_exception + decision) \<times> unit system" where
  "first_onboarding =
     onboard_app request_urlparse dead_network svc_request
       (machine (Inl OSError) None empty_redis)"

definition second_onboarding :: "(py_exception + decision) \<times> unit system" where
  "second_onboarding =
     onboard_app request_urlparse serving_network svc_request (snd first_onboarding)"


section \<open>The resolver follows the priority table\<close>

lemma probe_chain_first_success:
  "first_success (spec_rows net base_url host hdrs) w0 =
     (strategy_and_confidence (fst (probe_chain net base_url host hdrs w0)),
      snd (probe_chain net base_url host hdrs w0))"
  by (simp add: spec_rows_def probe_chain_def strategy_and_confidence_def
        monitorable_decision_def unmonitorable_decision_def
      split: prod.splits bool.splits option.splits)

lemma probe_chain_all_fail:
  "all_fail (probes net base_url host hdrs) w0 \<Longrightarrow>
     fst (probe_chain net base_url host hdrs w0) = unmonitorable_decision"
  by (simp add: probes_def probe_chain_def split: prod.splits bool.splits option.splits)

lemma probe_chain_monitorable:
  "fst (probe_chain net base_url host hdrs w0) ''monitorable'' =
     Some (PBool (strategy_and_confidence (fst (probe_chain net base_url host hdrs w0)) \<noteq> None))"
  by (simp add: probe_chain_def strategy_and_confidence_def
        monitorable_decision_def unmonitorable_decision_def
      split: prod.splits bool.splits option.splits)

lemma probe_chain_cases:
  "fst (probe_chain net base_url host hdrs w0) = unmonitorable_decision
   \<or> (\<exists>s c t. fst (probe_chain net base_url host hdrs w0) = monitorable_decision s c t)"
  by (simp add: probe_chain_def split: prod.splits bool.splits option.splits) blast

lemma strategy_and_confidence_monitorable [simp]:
  "strategy_and_confidence (monitorable_decision s c t) = Some (s, c)"
  by (simp add: strategy_and_confidence_def monitorable_decision_def)

lemma probe_chain_no_strategy:
  "strategy_and_confidence (fst (probe_chain net base_url host hdrs w0)) = None \<Longrightarrow>
     fst (probe_chain net base_url host hdrs w0) = unmonitorable_decision"
  using probe_chain_cases [of net base_url host hdrs w0] by auto

lemma detect_parsed:
  "urlparse_hostname (url a) = Inr host \<Longrightarrow>
   requests_get net (url a) (Some 2) w = (r, w0) \<Longrightarrow>
     detect_monitoring_strategy urlparse_hostname net a w =
       (Inr (fst (probe_chain net (url a) host (fetched_headers r) w0)),
        snd (probe_chain net (url a) host (fetched_headers r) w0))"
  by (simp add: detect_monitoring_strategy_def fetched_headers_def split: prod.splits)

lemma probe_chain_prometheus:
  "requests_get net (base_url @ ''/metrics'') (Some PROM_TIMEOUT) w0 = (Inr resp, w1) \<Longrightarrow>
   status_code resp = 200 \<Longrightarrow> py_in ''HELP'' (body_text resp) \<Longrightarrow>
     probe_chain net base_url host hdrs w0 =
       (monitorable_decision ''prometheus'' ''high'' ''/metrics endpoint detected'', w1)"
  by (simp add: probe_chain_def check_prometheus_metrics_def)

text \<open>
  C1. Once the URL is parsed and the headers are fetched, the resolver returns a decision
  whose strategy and confidence are those of the first row, in the order prometheus,
  prometheus-auth, opentelemetry-http, opentelemetry-grpc, statsd, kubernetes-auto,
  cloud-metrics, blackbox-http, whose probe succeeds, and the unmonitorable decision when
  no row succeeds. In particular, when the GET of /metrics answers 200 with the marker
  \<open>HELP\<close> in the body, the decision is the prometheus one with confidence high, whatever
  the other probes would answer.
\<close>

theorem detect_follows_priority_order:
  assumes "urlparse_hostname (url a) = Inr host"
    and "requests_get net (url a) (Some 2) w = (r, w0)"
  shows "(\<exists>d w'. detect_monitoring_strategy urlparse_hostname net a w = (Inr d, w')
            \<and> first_success (spec_rows net (url a) host (fetched_headers r)) w0
                = (strategy_and_confidence d, w')
            \<and> d ''monitorable'' = Some (PBool (strategy_and_confidence d \<noteq> None))
            \<and> (strategy_and_confidence d = None \<longrightarrow> d = unmonitorable_decision))
       \<and> (\<forall>resp w1.
            requests_get net (url a @ ''/metrics'') (Some PROM_TIMEOUT) w0 = (Inr resp, w1)
            \<and> status_code resp = 200 \<and> py_in ''HELP'' (body_text resp)
            \<longrightarrow> detect_monitoring_strategy urlparse_hostname net a w =
                  (Inr (monitorable_decision ''prometheus'' ''high''
                          ''/metrics endpoint detected''), w1))"
proof -
  let ?pc = "probe_chain net (url a) host (fetched_headers r) w0"
  have run: "detect_monitoring_strategy urlparse_hostname net a w = (Inr (fst ?pc), snd ?pc)"
    using assms by (rule detect_parsed)
  have first:  "\<exists>d w'. detect_monitoring_strategy urlparse_hostname net a w = (Inr d, w')
            \<and> first_success (spec_rows net (url a) host (fetched_headers r)) w0
                = (strategy_and_confidence d, w')
            \<and> d ''monitorable'' = Some (PBool (strategy_and_confidence d \<noteq> None))
            \<and> (strategy_and_confidence d = None \<longrightarrow> d = unmonitorable_decision)"
  proof (intro exI [of _ "fst ?pc"] exI [of _ "snd ?pc"] conjI)
    show "detect_monitoring_strategy urlparse_hostname net a w = (Inr (fst ?pc), snd ?pc)"
      by (rule run)
    show "first_success (spec_rows net (url a) host (fetched_headers r)) w0
            = (strategy_and_confidence (fst ?pc), snd ?pc)"
      by (rule probe_chain_first_success)
    show "fst ?pc ''monitorable'' = Some (PBool (strategy_and_confidence (fst ?pc) \<noteq> None))"
      by (rule probe_chain_monitorable)
    show "strategy_and_confidence (fst ?pc) = None \<longrightarrow> fst ?pc = unmonitorable_decision"
      by (rule impI) (rule probe_chain_no_strategy)
  qed
  have dominance: "detect_monitoring_strategy urlparse_hostname net a w =
      (Inr (monitorable_decision ''prometheus'' ''high'' ''/metrics endpoint detected''), w1)"
    if "requests_get net (url a @ ''/metrics'') (Some PROM_TIMEOUT) w0 = (Inr resp, w1)
            \<and> status_code resp = 200 \<and> py_in ''HELP'' (body_text resp)" for resp w1
  proof -
    have "probe_chain net (url a) host (fetched_headers r) w0 =
        (monitorable_decision ''prometheus'' ''high'' ''/metrics endpoint detected'', w1)"
      using that by (simp add: probe_chain_prometheus)
    then show ?thesis using run by simp
  qed
  show ?thesis using first dominance by blast
qed

theorem detect_follows_priority_order_witness:
  "lib_urlparse (url svc_local) = Inr (Some ''svc.local'')
   \<and> requests_get prometheus_network (url svc_local) (Some 2) () = (Inl ConnectionRefused, ())
   \<and> requests_get prometheus_network (url svc_local @ ''/metrics'') (Some PROM_TIMEOUT) ()
       = (Inr metrics_page, ())
   \<and> status_code metrics_page = 200 \<and> py_in ''HELP'' (body_text metrics_page)
   \<and> detect_monitoring_strategy lib_urlparse prometheus_network svc_local () =
       (Inr (monitorable_decision ''prometheus'' ''high'' ''/metrics endpoint detected''), ())
   \<and> first_success (spec_rows prometheus_network (url svc_local) (Some ''svc.local'')
         (fetched_headers (Inl ConnectionRefused))) () = (Some (''prometheus'', ''high''), ())"
proof -
  have h1: "lib_urlparse (url svc_local) = Inr (Some ''svc.local'')"
    by (simp add: lib_urlparse_def svc_local_def urlparse_table_def)
  have h2: "requests_get prometheus_network (url svc_local) (Some 2) ()
              = (Inl ConnectionRefused, ())"
    by (simp add: prometheus_network_def table_network_def table_reply_def svc_local_def)
  have h3: "requests_get prometheus_network (url svc_local @ ''/metrics'') (Some PROM_TIMEOUT) ()
              = (Inr metrics_page, ())"
    by (simp add: prometheus_network_def table_network_def table_reply_def svc_local_def)
  have h4: "status_code metrics_page = 200 \<and> py_in ''HELP'' (body_text metrics_page)"
    by (simp add: metrics_page_def)
  note order = detect_follows_priority_order
    [where urlparse_hostname = lib_urlparse and a = svc_local, OF h1 h2]
  from order h3 h4 have run: "detect_monitoring_strategy lib_urlparse prometheus_network svc_local ()
      = (Inr (monitorable_decision ''prometheus'' ''high'' ''/metrics endpoint detected''), ())"
    by blast
  from order run have "first_success (spec_rows prometheus_network (url svc_local)
      (Some ''svc.local'') (fetched_headers (Inl ConnectionRefused))) ()
        = (Some (''prometheus'', ''high''), ())"
    by auto
  with h1 h2 h3 h4 run show ?thesis by blast
qed

text \<open>
  C2. When all eight probes fail, the resolver returns the decision with
  \<open>monitorable\<close> false, \<open>strategy\<close> \<open>None\<close>, \<open>confidence\<close> \<open>none\<close> and the four
  next steps, in their fixed order.
\<close>

theorem all_probes_fail_unmonitorable:
  assumes "urlparse_hostname (url a) = Inr host"
    and "requests_get net (url a) (Some 2) w = (r, w0)"
    and "all_fail (probes net (url a) host (fetched_headers r)) w0"
  shows "\<exists>d w'. detect_monitoring_strategy urlparse_hostname net a w = (Inr d, w')
           \<and> d ''monitorable'' = Some (PBool False)
           \<and> d ''strategy'' = Some PNone
           \<and> d ''confidence'' = Some (PStr ''none'')
           \<and> d ''next_steps'' = Some (PList [''Expose /metrics'',
                                              ''Enable OpenTelemetry SDK'',
                                              ''Deploy OpenTelemetry Collector'',
                                              ''Use blackbox exporter''])"
proof -
  let ?pc = "probe_chain net (url a) host (fetched_headers r) w0"
  have "detect_monitoring_strategy urlparse_hostname net a w = (Inr (fst ?pc), snd ?pc)"
    using assms(1,2) by (rule detect_parsed)
  moreover have "fst ?pc = unmonitorable_decision"
    using assms(3) by (rule probe_chain_all_fail)
  ultimately show ?thesis
    by (simp add: unmonitorable_decision_def)
qed

theorem all_probes_fail_unmonitorable_witness:
  "lib_urlparse (url svc_local) = Inr (Some ''svc.local'')
   \<and> requests_get dead_network (url svc_local) (Some 2) () = (Inl ConnectionRefused, ())
   \<and> all_fail (probes dead_network (url svc_local) (Some ''svc.local'')
        (fetched_headers (Inl ConnectionRefused))) ()
   \<and> (\<exists>d w'. detect_monitoring_strategy lib_urlparse dead_network svc_local () = (Inr d, w')
         \<and> d ''monitorable'' = Some (PBool False)
         \<and> d ''strategy'' = Some PNone
         \<and> d ''confidence'' = Some (PStr ''none'')
         \<and> d ''next_steps'' = Some (PList [''Expose /metrics'',
                                            ''Enable OpenTelemetry SDK'',
                                            ''Deploy OpenTelemetry Collector'',
                                            ''Use blackbox exporter'']))"
proof -
  have h1: "lib_urlparse (url svc_local) = Inr (Some ''svc.local'')"
    by (simp add: lib_urlparse_def svc_local_def urlparse_table_def)
  have h2: "requests_get dead_network (url svc_local) (Some 2) () = (Inl ConnectionRefused, ())"
    by (simp add: dead_network_def table_network_def table_reply_def)
  have h3: "all_fail (probes dead_network (url svc_local) (Some ''svc.local'')
              (fetched_headers (Inl ConnectionRefused))) ()"
    by (simp add: probes_def dead_network_def table_network_def table_reply_def
          check_prometheus_metrics_def check_prometheus_auth_def check_otlp_http_def
          check_otlp_grpc_def check_statsd_def check_blackbox_http_def fetched_headers_def
          detect_kubernetes_env_def detect_cloud_provider_def str_dict_def lower_def)
  show ?thesis
    using h1 h2 h3 all_probes_fail_unmonitorable
        [where urlparse_hostname = lib_urlparse and a = svc_local, OF h1 h2 h3]
    by blast
qed

section \<open>The decisions of the resolver\<close>

lemma detect_cloud_provider_cases:
  "detect_cloud_provider hdrs = Some cloud \<Longrightarrow>
     cloud = ''aws'' \<or> cloud = ''gcp'' \<or> cloud = ''azure''"
  by (auto simp add: detect_cloud_provider_def Let_def split: if_splits)

lemma upper_clouds:
  "upper ''aws'' = ''AWS''" "upper ''gcp'' = ''GCP''" "upper ''azure'' = ''AZURE''"
  by (simp_all add: upper_def upper_char_def ascii_lowercase_def ascii_uppercase_def)

lemma cloud_decision_known:
  "detect_cloud_provider hdrs = Some cloud \<Longrightarrow>
     monitorable_decision (cloud @ ''-cloud-metrics'') ''low'' (upper cloud @ '' headers detected'')
       \<in> set resolver_decisions"
  using detect_cloud_provider_cases [of hdrs cloud]
  by (auto simp add: upper_clouds resolver_decisions_def)

lemma probe_chain_range:
  "fst (probe_chain net base_url host hdrs w0) \<in> set resolver_decisions"
proof (cases "detect_cloud_provider hdrs")
  case None
  then show ?thesis
    by (simp add: probe_chain_def resolver_decisions_def
          split: prod.splits bool.splits option.splits)
next
  case (Some cloud)
  have "monitorable_decision (cloud @ ''-cloud-metrics'') ''low''
          (upper cloud @ '' headers detected'') \<in> set resolver_decisions"
    using Some by (rule cloud_decision_known)
  moreover have "fst (probe_chain net base_url host hdrs w0)
      \<in> insert (monitorable_decision (cloud @ ''-cloud-metrics'') ''low''
                  (upper cloud @ '' headers detected'')) (set resolver_decisions)"
    using Some
    by (simp add: probe_chain_def resolver_decisions_def
          split: prod.splits bool.splits option.splits)
  ultimately show ?thesis by auto
qed

lemma detect_range:
  assumes "detect_monitoring_strategy urlparse_hostname net a w = (Inr d, w')"
  shows "d \<in> set resolver_decisions"
proof (cases "urlparse_hostname (url a)")
  case (Inl e)
  with assms show ?thesis by (simp add: detect_monitoring_strategy_def)
next
  case (Inr host)
  obtain r w0 where get: "requests_get net (url a) (Some 2) w = (r, w0)"
    by (cases "requests_get net (url a) (Some 2) w")
  from detect_parsed [of urlparse_hostname, OF Inr get] assms
  have "d = fst (probe_chain net (url a) host (fetched_headers r) w0)" by simp
  then show ?thesis by (simp add: probe_chain_range)
qed

lemma empty_headers_no_markers:
  "\<not> detect_kubernetes_env []" "detect_cloud_provider [] = None"
  by (simp_all add: detect_kubernetes_env_def detect_cloud_provider_def str_dict_def lower_def)

text \<open>
  C3, as amended. For every target whose URL \<^verbatim>\<open>urlparse\<close> accepts, and whatever the
  network answers, the resolver returns a decision and does not raise. Each probe turns an
  exception of its call into failure of the probe, and when the first GET raises, the
  resolver goes on with empty headers, in which neither the Kubernetes nor a cloud marker
  is found.
\<close>

theorem resolver_returns_decision:
  assumes "urlparse_hostname (url a) = Inr host"
  shows "(\<exists>d w'. detect_monitoring_strategy urlparse_hostname net a w = (Inr d, w'))
     \<and> (\<forall>b e w0 w1. requests_get net (b @ ''/metrics'') (Some PROM_TIMEOUT) w0 = (Inl e, w1)
           \<longrightarrow> check_prometheus_metrics net b w0 = (False, w1)
             \<and> check_prometheus_auth net b w0 = (False, w1))
     \<and> (\<forall>b e e' w0 w1 w2.
           requests_post net (b @ ''/v1/traces'') (Some OTEL_TIMEOUT) w0 = (Inl e, w1)
           \<and> requests_post net (b @ ''/v1/metrics'') (Some OTEL_TIMEOUT) w1 = (Inl e', w2)
           \<longrightarrow> check_otlp_http net b w0 = (False, w2))
     \<and> (\<forall>h e w0 w1. create_connection net h 4317 (Some OTEL_TIMEOUT) w0 = (Inl e, w1)
           \<longrightarrow> check_otlp_grpc net h w0 = (False, w1))
     \<and> (\<forall>h e w0 w1. create_connection net h STATSD_PORT (Some 2) w0 = (Inl e, w1)
           \<longrightarrow> check_statsd net h w0 = (False, w1))
     \<and> (\<forall>b e w0 w1. requests_get net b (Some 5) w0 = (Inl e, w1)
           \<longrightarrow> check_blackbox_http net b w0 = (False, w1))
     \<and> (\<forall>e w0. requests_get net (url a) (Some 2) w = (Inl e, w0)
           \<longrightarrow> detect_monitoring_strategy urlparse_hostname net a w =
                 (Inr (fst (probe_chain net (url a) host [] w0)),
                  snd (probe_chain net (url a) host [] w0))
             \<and> \<not> detect_kubernetes_env [] \<and> detect_cloud_provider [] = None)"
proof -
  obtain r w0 where get: "requests_get net (url a) (Some 2) w = (r, w0)"
    by (cases "requests_get net (url a) (Some 2) w")
  have returns: "\<exists>d w'. detect_monitoring_strategy urlparse_hostname net a w = (Inr d, w')"
    using detect_parsed [of urlparse_hostname, OF assms get] by blast
  have header: "detect_monitoring_strategy urlparse_hostname net a w =
                 (Inr (fst (probe_chain net (url a) host [] w0)),
                  snd (probe_chain net (url a) host [] w0))"
    if "requests_get net (url a) (Some 2) w = (Inl e, w0)" for e w0
    using detect_parsed [of urlparse_hostname, OF assms that] by (simp add: fetched_headers_def)
  show ?thesis
    using returns header
    by (simp add: check_prometheus_metrics_def check_prometheus_auth_def check_otlp_http_def
          check_otlp_grpc_def check_statsd_def check_blackbox_http_def empty_headers_no_markers)
qed

theorem resolver_returns_decision_witness:
  "lib_urlparse (url svc_local) = Inr (Some ''svc.local'')
   \<and> requests_get dead_network (url svc_local @ ''/metrics'') (Some PROM_TIMEOUT) ()
        = (Inl ConnectionRefused, ())
   \<and> requests_post dead_network (url svc_local @ ''/v1/traces'') (Some OTEL_TIMEOUT) ()
        = (Inl ConnectionRefused, ())
   \<and> requests_post dead_network (url svc_local @ ''/v1/metrics'') (Some OTEL_TIMEOUT) ()
        = (Inl ConnectionRefused, ())
   \<and> create_connection dead_network (Some ''svc.local'') 4317 (Some OTEL_TIMEOUT) ()
        = (Inl ConnectionRefused, ())
   \<and> create_connection dead_network (Some ''svc.local'') STATSD_PORT (Some 2) ()
        = (Inl ConnectionRefused, ())
   \<and> requests_get dead_network (url svc_local) (Some 5) () = (Inl ConnectionRefused, ())
   \<and> requests_get dead_network (url svc_local) (Some 2) () = (Inl ConnectionRefused, ())
   \<and> (\<exists>d w'. detect_monitoring_strategy lib_urlparse dead_network svc_local () = (Inr d, w'))
   \<and> check_prometheus_metrics dead_network (url svc_local) () = (False, ())
   \<and> check_prometheus_auth dead_network (url svc_local) () = (False, ())
   \<and> check_otlp_http dead_network (url svc_local) () = (False, ())
   \<and> check_otlp_grpc dead_network (Some ''svc.local'') () = (False, ())
   \<and> check_statsd dead_network (Some ''svc.local'') () = (False, ())
   \<and> check_blackbox_http dead_network (url svc_local) () = (False, ())
   \<and> detect_monitoring_strategy lib_urlparse dead_network svc_local () =
        (Inr (fst (probe_chain dead_network (url svc_local) (Some ''svc.local'') [] ())),
         snd (probe_chain dead_network (url svc_local) (Some ''svc.local'') [] ()))"
proof -
  have h: "lib_urlparse (url svc_local) = Inr (Some ''svc.local'')"
    by (simp add: lib_urlparse_def svc_local_def urlparse_table_def)
  have calls:
    "requests_get dead_network (url svc_local @ ''/metrics'') (Some PROM_TIMEOUT) ()
        = (Inl ConnectionRefused, ())"
    "requests_post dead_network (url svc_local @ ''/v1/traces'') (Some OTEL_TIMEOUT) ()
        = (Inl ConnectionRefused, ())"
    "requests_post dead_network (url svc_local @ ''/v1/metrics'') (Some OTEL_TIMEOUT) ()
        = (Inl ConnectionRefused, ())"
    "create_connection dead_network (Some ''svc.local'') 4317 (Some OTEL_TIMEOUT) ()
        = (Inl ConnectionRefused, ())"
    "create_connection dead_network (Some ''svc.local'') STATSD_PORT (Some 2) ()
        = (Inl ConnectionRefused, ())"
    "requests_get dead_network (url svc_local) (Some 5) () = (Inl ConnectionRefused, ())"
    "requests_get dead_network (url svc_local) (Some 2) () = (Inl ConnectionRefused, ())"
    by (simp_all add: dead_network_def table_network_def table_reply_def)
  note total = resolver_returns_decision [where urlparse_hostname = lib_urlparse
      and a = svc_local and net = dead_network and w = "()", OF h]
  note probes = total [THEN conjunct2]
  note p1 = probes [THEN conjunct1, rule_format, OF calls(1)]
  note p2 = probes [THEN conjunct2, THEN conjunct1, rule_format, OF conjI [OF calls(2) calls(3)]]
  note p3 = probes [THEN conjunct2, THEN conjunct2, THEN conjunct1, rule_format, OF calls(4)]
  note p4 = probes [THEN conjunct2, THEN conjunct2, THEN conjunct2, THEN conjunct1,
      rule_format, OF calls(5)]
  note p5 = probes [THEN conjunct2, THEN conjunct2, THEN conjunct2, THEN conjunct2,
      THEN conjunct1, rule_format, OF calls(6)]
  note p6 = probes [THEN conjunct2, THEN conjunct2, THEN conjunct2, THEN conjunct2,
      THEN conjunct2, rule_format, OF calls(7)]
  show ?thesis
    using h calls total [THEN conjunct1] p1 p2 p3 p4 p5 p6 by simp
qed

text \<open>
  The claim C3 fails on the code as it is stated, for every target: the call that parses
  the URL is outside every \<^verbatim>\<open>try\<close>, and its \<open>ValueError\<close> leaves the resolver.
\<close>

theorem unparseable_url_raises:
  "detect_monitoring_strategy lib_urlparse dead_network open_bracket () = (Inl ValueError, ())"
  by (simp add: detect_monitoring_strategy_def lib_urlparse_def urlparse_table_def
        open_bracket_def)

text \<open>
  C4. Every decision the resolver returns carries a strategy exactly when \<open>monitorable\<close>
  is true, has confidence \<open>none\<close> exactly when it carries no strategy, and has the key
  \<open>next_steps\<close> only when \<open>monitorable\<close> is false.
\<close>

theorem decision_invariant:
  assumes "detect_monitoring_strategy urlparse_hostname net a w = (Inr d, w')"
  shows "(strategy_present d \<longleftrightarrow> d ''monitorable'' = Some (PBool True))
       \<and> (d ''confidence'' = Some (PStr ''none'') \<longleftrightarrow> \<not> strategy_present d)
       \<and> (d ''next_steps'' \<noteq> None \<longrightarrow> d ''monitorable'' = Some (PBool False))"
proof -
  have "\<forall>d \<in> set resolver_decisions.
          (strategy_present d \<longleftrightarrow> d ''monitorable'' = Some (PBool True))
        \<and> (d ''confidence'' = Some (PStr ''none'') \<longleftrightarrow> \<not> strategy_present d)
        \<and> (d ''next_steps'' \<noteq> None \<longrightarrow> d ''monitorable'' = Some (PBool False))"
    by (simp add: resolver_decisions_def monitorable_decision_def unmonitorable_decision_def
          strategy_present_def)
  then show ?thesis using detect_range [OF assms] by blast
qed

theorem decision_invariant_witness:
  "detect_monitoring_strategy lib_urlparse dead_network svc_local ()
      = (Inr unmonitorable_decision, ())
   \<and> \<not> strategy_present unmonitorable_decision
   \<and> unmonitorable_decision ''monitorable'' = Some (PBool False)
   \<and> unmonitorable_decision ''confidence'' = Some (PStr ''none'')
   \<and> unmonitorable_decision ''next_steps'' \<noteq> None"
proof -
  have run: "detect_monitoring_strategy lib_urlparse dead_network svc_local ()
      = (Inr unmonitorable_decision, ())"
    by (simp add: detect_monitoring_strategy_def lib_urlparse_def urlparse_table_def
          svc_local_def dead_network_def table_network_def table_reply_def probe_chain_def
          check_prometheus_metrics_def check_prometheus_auth_def check_otlp_http_def
          check_otlp_grpc_def check_statsd_def check_blackbox_http_def
          empty_headers_no_markers)
  have steps: "unmonitorable_decision ''next_steps'' \<noteq> None"
    by (simp add: unmonitorable_decision_def)
  note inv = decision_invariant [OF run]
  from inv steps have mon: "unmonitorable_decision ''monitorable'' = Some (PBool False)"
    by blast
  from inv mon have absent: "\<not> strategy_present unmonitorable_decision"
    by simp
  from inv absent have "unmonitorable_decision ''confidence'' = Some (PStr ''none'')"
    by blast
  with run steps mon absent show ?thesis by blast
qed


section \<open>Malformed targets\<close>

text \<open>
  The claim C5 fails on the code: for a URL without a host the resolver raises nothing,
  runs all its probes and returns the unmonitorable decision.
\<close>

theorem hostless_target_falls_through:
  "detect_monitoring_strategy lib_urlparse dead_network hostless ()
     = (Inr unmonitorable_decision, ())"
  by (simp add: detect_monitoring_strategy_def lib_urlparse_def urlparse_table_def
        hostless_def dead_network_def table_network_def table_reply_def probe_chain_def
        check_prometheus_metrics_def check_prometheus_auth_def check_otlp_http_def
        check_otlp_grpc_def check_statsd_def check_blackbox_http_def
        empty_headers_no_markers)

text \<open>
  C5, as amended. The resolver does not validate its target and has no error of its own.
  A URL without a host is probed like any other, with host \<open>None\<close> for the two TCP
  probes, and the call returns the decision of the chain: the unmonitorable one when
  every probe fails. A URL that \<^verbatim>\<open>urlparse\<close> cannot parse makes the call raise the
  exception of \<^verbatim>\<open>urlparse\<close>, before any request is sent.
\<close>

theorem malformed_target_not_rejected:
  assumes "requests_get net (url a) (Some 2) w = (r, w0)"
  shows "(urlparse_hostname (url a) = Inr None \<longrightarrow>
            detect_monitoring_strategy urlparse_hostname net a w =
              (Inr (fst (probe_chain net (url a) None (fetched_headers r) w0)),
               snd (probe_chain net (url a) None (fetched_headers r) w0))
          \<and> (all_fail (probes net (url a) None (fetched_headers r)) w0 \<longrightarrow>
               fst (detect_monitoring_strategy urlparse_hostname net a w)
                 = Inr unmonitorable_decision))
       \<and> (\<forall>e. urlparse_hostname (url a) = Inl e \<longrightarrow>
            detect_monitoring_strategy urlparse_hostname net a w = (Inl e, w))"
proof -
  have hostless: "detect_monitoring_strategy urlparse_hostname net a w =
              (Inr (fst (probe_chain net (url a) None (fetched_headers r) w0)),
               snd (probe_chain net (url a) None (fetched_headers r) w0))"
    if "urlparse_hostname (url a) = Inr None"
    using detect_parsed [of urlparse_hostname, OF that assms] .
  have fallback: "fst (detect_monitoring_strategy urlparse_hostname net a w)
                 = Inr unmonitorable_decision"
    if "urlparse_hostname (url a) = Inr None"
      and "all_fail (probes net (url a) None (fetched_headers r)) w0"
    using hostless [OF that(1)] probe_chain_all_fail [OF that(2)] by simp
  have raises: "detect_monitoring_strategy urlparse_hostname net a w = (Inl e, w)"
    if "urlparse_hostname (url a) = Inl e" for e
    using that by (simp add: detect_monitoring_strategy_def)
  show ?thesis using hostless fallback raises by blast
qed

theorem malformed_target_not_rejected_witness:
  "requests_get dead_network (url hostless) (Some 2) () = (Inl ConnectionRefused, ())
   \<and> lib_urlparse (url hostless) = Inr None
   \<and> all_fail (probes dead_network (url hostless) None
        (fetched_headers (Inl ConnectionRefused))) ()
   \<and> fst (detect_monitoring_strategy lib_urlparse dead_network hostless ())
        = Inr unmonitorable_decision
   \<and> requests_get dead_network (url open_bracket) (Some 2) () = (Inl ConnectionRefused, ())
   \<and> lib_urlparse (url open_bracket) = Inl ValueError
   \<and> detect_monitoring_strategy lib_urlparse dead_network open_bracket ()
        = (Inl ValueError, ())"
proof -
  have g1: "requests_get dead_network (url hostless) (Some 2) () = (Inl ConnectionRefused, ())"
    by (simp add: dead_network_def table_network_def table_reply_def)
  have p1: "lib_urlparse (url hostless) = Inr None"
    by (simp add: lib_urlparse_def urlparse_table_def hostless_def)
  have f1: "all_fail (probes dead_network (url hostless) None
              (fetched_headers (Inl ConnectionRefused))) ()"
    by (simp add: probes_def dead_network_def table_network_def table_reply_def
          check_prometheus_metrics_def check_prometheus_auth_def check_otlp_http_def
          check_otlp_grpc_def check_statsd_def check_blackbox_http_def fetched_headers_def
          empty_headers_no_markers)
  have g2: "requests_get dead_network (url open_bracket) (Some 2) ()
              = (Inl ConnectionRefused, ())"
    by (simp add: dead_network_def table_network_def table_reply_def)
  have p2: "lib_urlparse (url open_bracket) = Inl ValueError"
    by (simp add: lib_urlparse_def urlparse_table_def open_bracket_def)
  note t1 = malformed_target_not_rejected [where urlparse_hostname = lib_urlparse, OF g1]
  note t2 = malformed_target_not_rejected [where urlparse_hostname = lib_urlparse, OF g2]
  have r1: "fst (detect_monitoring_strategy lib_urlparse dead_network hostless ())
              = Inr unmonitorable_decision"
    using t1 [THEN conjunct1, rule_format, OF p1, THEN conjunct2, rule_format, OF f1] .
  have r2: "detect_monitoring_strategy lib_urlparse dead_network open_bracket ()
              = (Inl ValueError, ())"
    using t2 [THEN conjunct2, rule_format, OF p2] .
  show ?thesis using g1 p1 f1 r1 g2 p2 r2 by blast
qed

section \<open>The two probes of /metrics\<close>

text \<open>
  When /metrics answers 500, neither of the two success conditions holds, so it is not
  the case that exactly one of them holds for every outcome.
\<close>

theorem neither_metrics_condition_holds:
  "\<not> fst (check_prometheus_metrics failing_metrics_network ''http://svc.local'' ())
   \<and> \<not> fst (check_prometheus_auth failing_metrics_network ''http://svc.local'' ())"
  by (simp add: check_prometheus_metrics_def check_prometheus_auth_def
        failing_metrics_network_def table_network_def table_reply_def error_page_def)

lemma probe_chain_strategy_prometheus:
  "fst (probe_chain net base_url host hdrs w0) ''strategy'' = Some (PStr ''prometheus'')
     \<longleftrightarrow> fst (check_prometheus_metrics net base_url w0)"
proof (cases "detect_cloud_provider hdrs")
  case None
  then show ?thesis
    by (simp add: probe_chain_def monitorable_decision_def unmonitorable_decision_def
        split: prod.splits bool.splits)
next
  case (Some cloud)
  then show ?thesis
    using detect_cloud_provider_cases [OF Some]
    by (auto simp add: probe_chain_def monitorable_decision_def unmonitorable_decision_def
        split: prod.splits bool.splits)
qed

lemma probe_chain_strategy_prometheus_auth:
  "fst (probe_chain net base_url host hdrs w0) ''strategy'' = Some (PStr ''prometheus-auth'')
     \<longleftrightarrow> \<not> fst (check_prometheus_metrics net base_url w0)
         \<and> fst (check_prometheus_auth net base_url (snd (check_prometheus_metrics net base_url w0)))"
proof (cases "detect_cloud_provider hdrs")
  case None
  then show ?thesis
    by (simp add: probe_chain_def monitorable_decision_def unmonitorable_decision_def
        split: prod.splits bool.splits)
next
  case (Some cloud)
  then show ?thesis
    using detect_cloud_provider_cases [OF Some]
    by (auto simp add: probe_chain_def monitorable_decision_def unmonitorable_decision_def
        split: prod.splits bool.splits)
qed

text \<open>
  C6, as amended. For one outcome of the GET of /metrics, seen by both probes, at most
  one of the two success conditions holds (200 with the marker; 401 or 403). The resolver
  returns prometheus exactly when the first probe succeeds, and prometheus-auth exactly
  when the first probe fails and the second, run next, succeeds: never both, and never
  prometheus-auth after a successful prometheus probe.
\<close>

theorem prometheus_strategies_exclusive:
  assumes "urlparse_hostname (url a) = Inr host"
    and "requests_get net (url a) (Some 2) w = (r, w0)"
    and "detect_monitoring_strategy urlparse_hostname net a w = (Inr d, w')"
  shows "(\<forall>outcome w1 w1' w2 w2'.
            requests_get net (url a @ ''/metrics'') (Some PROM_TIMEOUT) w1 = (outcome, w1')
            \<and> requests_get net (url a @ ''/metrics'') (Some PROM_TIMEOUT) w2 = (outcome, w2')
            \<longrightarrow> \<not> (fst (check_prometheus_metrics net (url a) w1)
                    \<and> fst (check_prometheus_auth net (url a) w2)))
       \<and> (d ''strategy'' = Some (PStr ''prometheus'')
            \<longleftrightarrow> fst (check_prometheus_metrics net (url a) w0))
       \<and> (d ''strategy'' = Some (PStr ''prometheus-auth'')
            \<longleftrightarrow> \<not> fst (check_prometheus_metrics net (url a) w0)
                \<and> fst (check_prometheus_auth net (url a)
                         (snd (check_prometheus_metrics net (url a) w0))))
       \<and> (fst (check_prometheus_metrics net (url a) w0)
            \<longrightarrow> d ''strategy'' \<noteq> Some (PStr ''prometheus-auth''))"
proof -
  have d: "d = fst (probe_chain net (url a) host (fetched_headers r) w0)"
    using detect_parsed [of urlparse_hostname, OF assms(1,2)] assms(3) by simp
  have exclusive: "\<not> (fst (check_prometheus_metrics net (url a) w1)
                    \<and> fst (check_prometheus_auth net (url a) w2))"
    if "requests_get net (url a @ ''/metrics'') (Some PROM_TIMEOUT) w1 = (outcome, w1')
        \<and> requests_get net (url a @ ''/metrics'') (Some PROM_TIMEOUT) w2 = (outcome, w2')"
    for outcome w1 w1' w2 w2'
    using that
    by (cases outcome) (auto simp add: check_prometheus_metrics_def check_prometheus_auth_def)
  show ?thesis
    using exclusive
    unfolding d probe_chain_strategy_prometheus probe_chain_strategy_prometheus_auth
    by blast
qed

theorem prometheus_strategies_exclusive_witness:
  "lib_urlparse (url svc_local) = Inr (Some ''svc.local'')
   \<and> requests_get prometheus_network (url svc_local) (Some 2) () = (Inl ConnectionRefused, ())
   \<and> detect_monitoring_strategy lib_urlparse prometheus_network svc_local ()
       = (Inr (monitorable_decision ''prometheus'' ''high'' ''/metrics endpoint detected''), ())
   \<and> requests_get prometheus_network (url svc_local @ ''/metrics'') (Some PROM_TIMEOUT) ()
       = (Inr metrics_page, ())
   \<and> fst (check_prometheus_metrics prometheus_network (url svc_local) ())
   \<and> \<not> fst (check_prometheus_auth prometheus_network (url svc_local) ())
   \<and> monitorable_decision ''prometheus'' ''high'' ''/metrics endpoint detected'' ''strategy''
       \<noteq> Some (PStr ''prometheus-auth'')"
proof -
  have h1: "lib_urlparse (url svc_local) = Inr (Some ''svc.local'')"
    by (simp add: lib_urlparse_def svc_local_def urlparse_table_def)
  have h2: "requests_get prometheus_network (url svc_local) (Some 2) ()
              = (Inl ConnectionRefused, ())"
    by (simp add: prometheus_network_def table_network_def table_reply_def svc_local_def)
  have h3: "requests_get prometheus_network (url svc_local @ ''/metrics'') (Some PROM_TIMEOUT) ()
              = (Inr metrics_page, ())"
    by (simp add: prometheus_network_def table_network_def table_reply_def svc_local_def)
  have run: "detect_monitoring_strategy lib_urlparse prometheus_network svc_local ()
       = (Inr (monitorable_decision ''prometheus'' ''high'' ''/metrics endpoint detected''), ())"
    using detect_parsed [of lib_urlparse, OF h1 h2]
      probe_chain_prometheus [OF h3, of "Some ''svc.local''" "fetched_headers (Inl ConnectionRefused)"]
    by (simp add: metrics_page_def)
  note excl = prometheus_strategies_exclusive [where urlparse_hostname = lib_urlparse,
      OF h1 h2 run]
  have strategy: "monitorable_decision ''prometheus'' ''high'' ''/metrics endpoint detected''
      ''strategy'' = Some (PStr ''prometheus'')"
    by (simp add: monitorable_decision_def)
  from excl strategy have ok: "fst (check_prometheus_metrics prometheus_network (url svc_local) ())"
    by blast
  from excl [THEN conjunct1, rule_format, OF conjI [OF h3 h3]] ok
  have no_auth: "\<not> fst (check_prometheus_auth prometheus_network (url svc_local) ())"
    by blast
  from excl ok have "monitorable_decision ''prometheus'' ''high''
      ''/metrics endpoint detected'' ''strategy'' \<noteq> Some (PStr ''prometheus-auth'')"
    by blast
  with h1 h2 h3 run ok no_auth show ?thesis by blast
qed


section \<open>Determinism of the resolver\<close>


lemma blind_bind:
  assumes "blind f" and "\<And>x. blind (g x)"
  shows "blind (\<lambda>w. case f w of (x, w') \<Rightarrow> g x w')"
  unfolding blind_def
proof (intro allI)
  fix w w'
  obtain x v where fw: "f w = (x, v)" by (cases "f w")
  obtain x' v' where fw': "f w' = (x', v')" by (cases "f w'")
  have "x = x'" using assms(1) fw fw' unfolding blind_def by (metis fst_conv)
  then show "fst (case f w of (x, w') \<Rightarrow> g x w') = fst (case f w' of (x, w') \<Rightarrow> g x w')"
    using assms(2) [of x] fw fw' unfolding blind_def by simp
qed

lemma blind_return: "blind (Pair x)"
  unfolding blind_def by simp

text \<open>Each probe is a call followed by a pure test of its outcome.\<close>

lemma check_prometheus_metrics_form:
  "check_prometheus_metrics net base_url =
     (\<lambda>w. case requests_get net (base_url @ ''/metrics'') (Some PROM_TIMEOUT) w of
        (x, w') \<Rightarrow> Pair (case x of Inl e \<Rightarrow> False
                   | Inr r \<Rightarrow> status_code r = 200 \<and> py_in ''HELP'' (body_text r)) w')"
  by (rule ext) (simp add: check_prometheus_metrics_def split: prod.splits sum.splits)

lemma check_prometheus_auth_form:
  "check_prometheus_auth net base_url =
     (\<lambda>w. case requests_get net (base_url @ ''/metrics'') (Some PROM_TIMEOUT) w of
        (x, w') \<Rightarrow> Pair (case x of Inl e \<Rightarrow> False
                   | Inr r \<Rightarrow> status_code r \<in> set [401, 403]) w')"
  by (rule ext) (simp add: check_prometheus_auth_def split: prod.splits sum.splits)

lemma otlp_paths_loop_form:
  "otlp_paths_loop net base_url (path # paths) =
     (\<lambda>w. case requests_post net (base_url @ path) (Some OTEL_TIMEOUT) w of
        (x, w') \<Rightarrow> (if (case x of Inl e \<Rightarrow> False | Inr r \<Rightarrow> status_code r \<in> set [200, 404, 415])
                    then Pair True else otlp_paths_loop net base_url paths) w')"
  by (rule ext) (simp split: prod.splits sum.splits)

lemma otlp_paths_loop_nil: "otlp_paths_loop net base_url [] = Pair False"
  by (rule ext) simp

lemma check_otlp_http_form:
  "check_otlp_http net base_url = otlp_paths_loop net base_url [''/v1/traces'', ''/v1/metrics'']"
  by (rule ext) (simp only: check_otlp_http_def)

lemma check_otlp_grpc_form:
  "check_otlp_grpc net host =
     (\<lambda>w. case create_connection net host 4317 (Some OTEL_TIMEOUT) w of
        (x, w') \<Rightarrow> Pair (case x of Inl e \<Rightarrow> False | Inr u \<Rightarrow> True) w')"
  by (rule ext) (simp add: check_otlp_grpc_def split: prod.splits sum.splits)

lemma check_statsd_form:
  "check_statsd net host =
     (\<lambda>w. case create_connection net host STATSD_PORT (Some 2) w of
        (x, w') \<Rightarrow> Pair (case x of Inl e \<Rightarrow> False | Inr u \<Rightarrow> True) w')"
  by (rule ext) (simp add: check_statsd_def split: prod.splits sum.splits)

lemma check_blackbox_http_form:
  "check_blackbox_http net u =
     (\<lambda>w. case requests_get net u (Some 5) w of
        (x, w') \<Rightarrow> Pair (case x of Inl e \<Rightarrow> False | Inr r \<Rightarrow> status_code r < 500) w')"
  by (rule ext) (simp add: check_blackbox_http_def split: prod.splits sum.splits)

lemma first_decision_form:
  "first_decision ((probe, d) # rows) fallback =
     (\<lambda>w. case probe w of (x, w') \<Rightarrow> (if x then Pair d else first_decision rows fallback) w')"
  by (rule ext) (simp split: prod.splits bool.splits)

lemma first_decision_nil: "first_decision [] fallback = Pair fallback"
  by (rule ext) simp

lemma probe_chain_rows:
  "probe_chain net base_url host hdrs =
     first_decision (zip (probes net base_url host hdrs) (decision_rows hdrs))
       unmonitorable_decision"
  by (rule ext)
     (simp add: probe_chain_def probes_def decision_rows_def
        split: prod.splits bool.splits option.splits)

lemma detect_form:
  "detect_monitoring_strategy urlparse_hostname net a =
     (case urlparse_hostname (url a) of
        Inl e \<Rightarrow> Pair (Inl e)
      | Inr host \<Rightarrow>
          (\<lambda>w. case requests_get net (url a) (Some 2) w of
             (r, w0) \<Rightarrow>
               (case probe_chain net (url a) host (fetched_headers r) w0 of
                  (d, w') \<Rightarrow> Pair (Inr d) w')))"
  by (rule ext)
     (simp add: detect_monitoring_strategy_def fetched_headers_def
        split: prod.splits sum.splits)

lemma blind_calls:
  assumes "unchanging net"
  shows "blind (requests_get net u t)" "blind (requests_post net u t)"
    "blind (create_connection net h p t)"
  using assms unfolding unchanging_def blind_def by blast+

lemma blind_otlp_paths_loop:
  assumes "unchanging net"
  shows "blind (otlp_paths_loop net b paths)"
proof (induction paths)
  case Nil
  show ?case unfolding otlp_paths_loop_nil by (rule blind_return)
next
  case (Cons path paths)
  show ?case
    unfolding otlp_paths_loop_form
    by (rule blind_bind [OF blind_calls(2) [OF assms]]) (simp add: blind_return Cons.IH)
qed

lemma blind_probes:
  assumes "unchanging net"
  shows "list_all blind (probes net b host hdrs)"
proof -
  note calls = blind_calls [OF assms]
  have "blind (check_prometheus_metrics net b)"
    unfolding check_prometheus_metrics_form by (intro blind_bind calls blind_return)
  moreover have "blind (check_prometheus_auth net b)"
    unfolding check_prometheus_auth_form by (intro blind_bind calls blind_return)
  moreover have "blind (check_otlp_http net b)"
    unfolding check_otlp_http_form by (rule blind_otlp_paths_loop [OF assms])
  moreover have "blind (check_otlp_grpc net host)"
    unfolding check_otlp_grpc_form by (intro blind_bind calls blind_return)
  moreover have "blind (check_statsd net host)"
    unfolding check_statsd_form by (intro blind_bind calls blind_return)
  moreover have "blind (check_blackbox_http net b)"
    unfolding check_blackbox_http_form by (intro blind_bind calls blind_return)
  ultimately show ?thesis
    by (simp add: probes_def blind_return)
qed

lemma blind_first_decision:
  assumes "list_all (\<lambda>(p, d). blind p) rows"
  shows "blind (first_decision rows fallback)"
  using assms
proof (induction rows)
  case Nil
  show ?case by (simp add: first_decision_nil blind_return)
next
  case (Cons row rows)
  obtain p d where row: "row = (p, d)" by (cases row)
  from Cons.prems have head: "blind p" and tail: "list_all (\<lambda>(p, d). blind p) rows"
    by (simp_all add: row)
  show ?case
    unfolding row first_decision_form
    apply (rule blind_bind [OF head])
    subgoal for x
      by (cases x) (simp_all only: if_True if_False blind_return Cons.IH [OF tail])
    done
qed

lemma blind_probe_chain:
  assumes "unchanging net"
  shows "blind (probe_chain net b host hdrs)"
proof -
  have "list_all (\<lambda>(p, d). blind p) (zip (probes net b host hdrs) (decision_rows hdrs))"
    using blind_probes [OF assms, of b host hdrs]
    by (simp add: probes_def decision_rows_def)
  then show ?thesis unfolding probe_chain_rows by (rule blind_first_decision)
qed

lemma blind_detect:
  assumes "unchanging net"
  shows "blind (detect_monitoring_strategy up net a)"
proof (cases "up (url a)")
  case (Inl e)
  then show ?thesis unfolding detect_form by (simp add: blind_return)
next
  case (Inr host)
  show ?thesis
    unfolding detect_form Inr sum.case
    by (intro blind_bind blind_calls(1) [OF assms] blind_probe_chain [OF assms] blind_return)
qed

lemma first_decision_selected:
  "length ps = length ds \<Longrightarrow>
     fst (first_decision (zip ps ds) fallback w) = selected ds fallback (observed_results ps w)"
proof (induction ps arbitrary: ds w)
  case Nil
  then show ?case by simp
next
  case (Cons p ps)
  then obtain d ds' where ds: "ds = d # ds'" by (cases ds) auto
  obtain ok w' where pw: "p w = (ok, w')" by (cases "p w")
  show ?case
    using Cons.IH [of ds' w'] Cons.prems by (cases ok) (simp_all add: ds pw)
qed

lemma probe_chain_selected:
  "fst (probe_chain net base_url host hdrs w0) =
     selected (decision_rows hdrs) unmonitorable_decision
       (observed_results (probes net base_url host hdrs) w0)"
  unfolding probe_chain_rows
  by (rule first_decision_selected) (simp add: probes_def decision_rows_def)

lemma detect_selected:
  "fst (detect_monitoring_strategy urlparse_hostname net a w) =
     (case urlparse_hostname (url a) of
        Inl e \<Rightarrow> Inl e
      | Inr host \<Rightarrow>
          (case probe_outcomes urlparse_hostname net a w of
             None \<Rightarrow> Inr unmonitorable_decision
           | Some (hdrs, results) \<Rightarrow>
               Inr (selected (decision_rows hdrs) unmonitorable_decision results)))"
proof (cases "urlparse_hostname (url a)")
  case (Inl e)
  then show ?thesis by (simp add: detect_monitoring_strategy_def)
next
  case (Inr host)
  obtain r w0 where get: "requests_get net (url a) (Some 2) w = (r, w0)"
    by (cases "requests_get net (url a) (Some 2) w")
  show ?thesis
    using detect_parsed [of urlparse_hostname, OF Inr get]
    by (simp add: Inr get probe_outcomes_def probe_chain_selected)
qed

text \<open>
  C7. The result of the resolver is determined by what it observes of its probes: two
  runs on the same target, against any two networks in any states, that fetch the same
  headers and see the same success or failure of each probe they run return the same
  result, whatever the replies themselves were. And on a network whose answers do not
  change, a second run, started in the state the first one left, returns the same result
  as the first.
\<close>

theorem resolver_deterministic:
  "(probe_outcomes urlparse_hostname net1 a w1 = probe_outcomes urlparse_hostname net2 a w2
      \<longrightarrow> fst (detect_monitoring_strategy urlparse_hostname net1 a w1)
            = fst (detect_monitoring_strategy urlparse_hostname net2 a w2))
   \<and> (unchanging net
      \<longrightarrow> fst (detect_monitoring_strategy urlparse_hostname net a
                 (snd (detect_monitoring_strategy urlparse_hostname net a w)))
            = fst (detect_monitoring_strategy urlparse_hostname net a w))"
proof (intro conjI impI)
  assume same: "probe_outcomes urlparse_hostname net1 a w1
                  = probe_outcomes urlparse_hostname net2 a w2"
  show "fst (detect_monitoring_strategy urlparse_hostname net1 a w1)
            = fst (detect_monitoring_strategy urlparse_hostname net2 a w2)"
    unfolding detect_selected same by (rule refl)
next
  assume "unchanging net"
  then have "blind (detect_monitoring_strategy urlparse_hostname net a)"
    by (rule blind_detect)
  then show "fst (detect_monitoring_strategy urlparse_hostname net a
                 (snd (detect_monitoring_strategy urlparse_hostname net a w)))
            = fst (detect_monitoring_strategy urlparse_hostname net a w)"
    unfolding blind_def by blast
qed

lemma unchanging_table_network: "unchanging (table_network gets posts listening)"
  by (simp add: unchanging_def table_network_def)

lemma all_fail_outcomes:
  assumes "lib_urlparse (url svc_local) = Inr (Some ''svc.local'')"
    and "requests_get net (url svc_local) (Some 2) () = (Inl ConnectionRefused, ())"
    and "observed_results (probes net (url svc_local) (Some ''svc.local'') []) ()
           = replicate 8 False"
  shows "probe_outcomes lib_urlparse net svc_local () = Some ([], replicate 8 False)"
  using assms by (simp add: probe_outcomes_def fetched_headers_def)

theorem resolver_deterministic_witness:
  "requests_get failing_metrics_network (url svc_local @ ''/metrics'') (Some PROM_TIMEOUT) ()
     = (Inr error_page, ())
   \<and> requests_get teapot_metrics_network (url svc_local @ ''/metrics'') (Some PROM_TIMEOUT) ()
     = (Inr teapot_page, ())
   \<and> error_page \<noteq> teapot_page
   \<and> probe_outcomes lib_urlparse failing_metrics_network svc_local ()
     = probe_outcomes lib_urlparse teapot_metrics_network svc_local ()
   \<and> fst (detect_monitoring_strategy lib_urlparse failing_metrics_network svc_local ())
     = fst (detect_monitoring_strategy lib_urlparse teapot_metrics_network svc_local ())
   \<and> unchanging prometheus_network
   \<and> fst (detect_monitoring_strategy lib_urlparse prometheus_network svc_local
            (snd (detect_monitoring_strategy lib_urlparse prometheus_network svc_local ())))
     = fst (detect_monitoring_strategy lib_urlparse prometheus_network svc_local ())"
proof -
  have up: "lib_urlparse (url svc_local) = Inr (Some ''svc.local'')"
    by (simp add: lib_urlparse_def svc_local_def urlparse_table_def)
  have r1: "requests_get failing_metrics_network (url svc_local @ ''/metrics'')
              (Some PROM_TIMEOUT) () = (Inr error_page, ())"
    by (simp add: failing_metrics_network_def table_network_def table_reply_def svc_local_def)
  have r2: "requests_get teapot_metrics_network (url svc_local @ ''/metrics'')
              (Some PROM_TIMEOUT) () = (Inr teapot_page, ())"
    by (simp add: teapot_metrics_network_def table_network_def table_reply_def svc_local_def)
  have differ: "error_page \<noteq> teapot_page"
    by (simp add: error_page_def teapot_page_def)
  have o1: "probe_outcomes lib_urlparse failing_metrics_network svc_local ()
              = Some ([], replicate 8 False)"
    by (rule all_fail_outcomes [OF up])
       (simp_all add: failing_metrics_network_def table_network_def table_reply_def
          svc_local_def probes_def error_page_def
          check_prometheus_metrics_def check_prometheus_auth_def check_otlp_http_def
          check_otlp_grpc_def check_statsd_def check_blackbox_http_def
          empty_headers_no_markers numeral_eq_Suc)
  have o2: "probe_outcomes lib_urlparse teapot_metrics_network svc_local ()
              = Some ([], replicate 8 False)"
    by (rule all_fail_outcomes [OF up])
       (simp_all add: teapot_metrics_network_def table_network_def table_reply_def
          svc_local_def probes_def teapot_page_def
          check_prometheus_metrics_def check_prometheus_auth_def check_otlp_http_def
          check_otlp_grpc_def check_statsd_def check_blackbox_http_def
          empty_headers_no_markers numeral_eq_Suc)
  have same: "probe_outcomes lib_urlparse failing_metrics_network svc_local ()
     = probe_outcomes lib_urlparse teapot_metrics_network svc_local ()"
    using o1 o2 by simp
  have still: "unchanging prometheus_network"
    unfolding prometheus_network_def by (rule unchanging_table_network)
  note det = resolver_deterministic [of lib_urlparse _ svc_local]
  show ?thesis
    using r1 r2 differ same still
      det [of failing_metrics_network "()" teapot_metrics_network "()",
           THEN conjunct1, rule_format, OF same]
      det [of _ _ _ _ prometheus_network "()", THEN conjunct2, rule_format, OF still]
    by blast
qed

section \<open>Saving and fetching decisions\<close>

lemma decode_plain: "plain_string s \<Longrightarrow> decode_value s = Inr (Value (PStr s))"
  by (simp add: plain_string_def decode_value_def)

lemma roundtrip_simple:
  "decode_value (serialize_value PNone) = Inr (Value PNone)"
  "decode_value (serialize_value (PBool b)) = Inr (Value (PBool b))"
  "plain_string s \<Longrightarrow> decode_value (serialize_value (PStr s)) = Inr (Value (PStr s))"
  by (simp_all add: serialize_value_def py_str_def decode_plain)
     (simp_all add: decode_value_def)

lemma serialize_nonempty:
  "serialize_strategy d = Map.empty \<longleftrightarrow> d = Map.empty"
  by (auto simp add: serialize_strategy_def fun_eq_iff)

lemma save_result:
  assumes "save_monitoring_strategy k d db = Inr db'"
  shows "reachable db" "d \<noteq> Map.empty" "reachable db'"
    "hashes db' = (hashes db)(''app:'' @ k \<mapsto>
        (case hashes db (''app:'' @ k) of None \<Rightarrow> serialize_strategy d
                                          | Some h \<Rightarrow> h ++ serialize_strategy d))"
  using assms
  by (auto simp add: save_monitoring_strategy_def hset_def serialize_nonempty
      split: if_splits sum.splits)

lemma get_stored:
  assumes "reachable db" and "hashes db (''app:'' @ k) = Some h" and "h \<noteq> Map.empty"
    and "\<And>v. v \<in> ran h \<Longrightarrow> \<not> isl (decode_value v)"
  shows "get_monitoring_strategy k db =
           Inr (Some (\<lambda>f. map_option (projr \<circ> decode_value) (h f)))"
  using assms by (auto simp add: get_monitoring_strategy_def hgetall_def)

lemma monitorable_values:
  assumes "plain_string s" "plain_string c" "plain_string t"
    and "serialize_strategy (monitorable_decision s c t) f = Some v"
  shows "decode_value v = Inr (the (as_fetched (monitorable_decision s c t) f))"
  using assms
  by (auto simp add: serialize_strategy_def monitorable_decision_def as_fetched_def
        roundtrip_simple split: if_splits)

lemma monitorable_roundtrips:
  assumes "plain_string s" "plain_string c" "plain_string t"
  shows "(\<lambda>f. map_option (projr \<circ> decode_value) (serialize_strategy (monitorable_decision s c t) f))
           = as_fetched (monitorable_decision s c t)"
  using assms
  by (auto simp add: fun_eq_iff serialize_strategy_def monitorable_decision_def as_fetched_def
        roundtrip_simple)

lemma monitorable_decodes:
  assumes "plain_string s" "plain_string c" "plain_string t"
    and "v \<in> ran (serialize_strategy (monitorable_decision s c t))"
  shows "\<not> isl (decode_value v)"
proof -
  from assms(4) obtain f where "serialize_strategy (monitorable_decision s c t) f = Some v"
    by (auto simp add: ran_def)
  from monitorable_values [OF assms(1-3) this] show ?thesis by simp
qed

lemma resolver_strings_plain:
  "list_all plain_string
     [''prometheus'', ''prometheus-auth'', ''opentelemetry-http'', ''opentelemetry-grpc'',
      ''statsd'', ''kubernetes-auto'', ''aws-cloud-metrics'', ''gcp-cloud-metrics'',
      ''azure-cloud-metrics'', ''blackbox-http'', ''high'', ''medium'', ''low'',
      ''/metrics endpoint detected'', ''/metrics exists but requires auth'',
      ''OTLP HTTP endpoint detected'', ''OTLP gRPC endpoint detected on port 4317'',
      ''StatsD-compatible agent detected'', ''Kubernetes environment detected'',
      ''AWS headers detected'', ''GCP headers detected'', ''AZURE headers detected'',
      ''Only uptime / latency monitoring possible'']"
  by code_simp

lemma monitorable_members:
  assumes "d \<in> set resolver_decisions" and "d ''monitorable'' = Some (PBool True)"
  shows "\<exists>s c t. d = monitorable_decision s c t
           \<and> plain_string s \<and> plain_string c \<and> plain_string t"
  using assms resolver_strings_plain
  by (auto simp add: resolver_decisions_def unmonitorable_decision_def)

text \<open>
  C10. A decision that the resolver returns with \<open>monitorable\<close> true, saved under a key
  that holds nothing yet, is fetched back as the dict it was: the boolean survives its
  encoding as \<^verbatim>\<open>'True'\<close>, and the strategy, the confidence and the details are
  strings that none of the conversions of \<open>get_monitoring_strategy\<close> touches.
\<close>

theorem monitorable_decision_round_trip:
  assumes "detect_monitoring_strategy urlparse_hostname net a w = (Inr d, w')"
    and "d ''monitorable'' = Some (PBool True)"
    and "hashes db (''app:'' @ k) = None"
    and "save_monitoring_strategy k d db = Inr db'"
  shows "get_monitoring_strategy k db' = Inr (Some (as_fetched d))"
proof -
  obtain s c t where d: "d = monitorable_decision s c t"
    and plain: "plain_string s" "plain_string c" "plain_string t"
    using monitorable_members [OF detect_range [OF assms(1)] assms(2)] by blast
  note saved = save_result [OF assms(4)]
  have stored: "hashes db' (''app:'' @ k) = Some (serialize_strategy d)"
    using saved(4) assms(3) by simp
  have "get_monitoring_strategy k db' =
          Inr (Some (\<lambda>f. map_option (projr \<circ> decode_value) (serialize_strategy d f)))"
  proof (rule get_stored [OF saved(3) stored])
    show "serialize_strategy d \<noteq> Map.empty"
      using saved(2) by (simp add: serialize_nonempty)
    show "\<not> isl (decode_value v)" if "v \<in> ran (serialize_strategy d)" for v
      using monitorable_decodes [OF plain] that unfolding d by blast
  qed
  then show ?thesis
    unfolding d using monitorable_roundtrips [OF plain] by simp
qed

lemma prometheus_run:
  "detect_monitoring_strategy lib_urlparse prometheus_network svc_local ()
     = (Inr prometheus_found, ())"
  by (simp add: detect_monitoring_strategy_def lib_urlparse_def urlparse_table_def
        svc_local_def prometheus_network_def table_network_def table_reply_def
        probe_chain_def check_prometheus_metrics_def metrics_page_def prometheus_found_def)

lemma save_on_empty:
  "d \<noteq> Map.empty \<Longrightarrow>
   save_monitoring_strategy k d empty_redis
     = Inr (empty_redis\<lparr>hashes := [''app:'' @ k \<mapsto> serialize_strategy d]\<rparr>)"
  by (simp add: save_monitoring_strategy_def hset_def empty_redis_def serialize_nonempty)

lemma decisions_nonempty:
  "monitorable_decision s c t \<noteq> Map.empty" "unmonitorable_decision \<noteq> Map.empty"
  by (simp_all add: monitorable_decision_def unmonitorable_decision_def)

theorem monitorable_decision_round_trip_witness:
  "detect_monitoring_strategy lib_urlparse prometheus_network svc_local ()
     = (Inr prometheus_found, ())
   \<and> prometheus_found ''monitorable'' = Some (PBool True)
   \<and> hashes empty_redis (''app:'' @ url svc_local) = None
   \<and> then_do (save_monitoring_strategy (url svc_local) prometheus_found empty_redis)
        (get_monitoring_strategy (url svc_local)) = Inr (Some (as_fetched prometheus_found))"
proof -
  let ?db = "empty_redis\<lparr>hashes := [''app:'' @ url svc_local \<mapsto> serialize_strategy prometheus_found]\<rparr>"
  have mon: "prometheus_found ''monitorable'' = Some (PBool True)"
    by (simp add: prometheus_found_def monitorable_decision_def)
  have fresh: "hashes empty_redis (''app:'' @ url svc_local) = None"
    by (simp add: empty_redis_def)
  have saved: "save_monitoring_strategy (url svc_local) prometheus_found empty_redis = Inr ?db"
    by (rule save_on_empty) (simp add: prometheus_found_def decisions_nonempty)
  have "get_monitoring_strategy (url svc_local) ?db = Inr (Some (as_fetched prometheus_found))"
    using monitorable_decision_round_trip [OF prometheus_run mon fresh saved] .
  then show ?thesis
    using prometheus_run mon fresh saved by (simp add: then_do_def)
qed


section \<open>The scrape-config mutation\<close>

lemma add_job_load_error:
  "load_jobs (prometheus_yml s) = Inl e \<Longrightarrow> add_prometheus_scrape_job net sc s = (False, s)"
  by (simp add: add_prometheus_scrape_job_def add_job_try_def)

lemma load_jobs_io_error: "load_jobs (Inl e) = Inl e"
  by (simp add: load_jobs_def load_config_def then_do_def)
















section \<open>Onboarding twice\<close>

lemma add_job_try_store: "store (snd (add_job_try net sc s)) = store s"
  by (simp add: add_job_try_def Let_def split: sum.splits prod.splits option.splits)

lemma add_job_store: "store (snd (add_prometheus_scrape_job net sc s)) = store s"
  using add_job_try_store [of net sc s]
  by (cases "add_job_try net sc s") (auto simp add: add_prometheus_scrape_job_def split: sum.splits)

lemma configure_store:
  "store (snd (configure_prometheus_scrape up net u auth s)) = store s"
proof (cases "up u")
  case (Inl e)
  then show ?thesis by (simp add: configure_prometheus_scrape_def)
next
  case (Inr hostname)
  have "store (snd (case add_prometheus_scrape_job net sc s of (ok, s') \<Rightarrow> (Inr sc, s')))
          = store s" for sc :: scrape_config
    using add_job_store [of net sc s]
    by (cases "add_prometheus_scrape_job net sc s") simp
  then show ?thesis
    using Inr by (simp add: configure_prometheus_scrape_def Let_def)
qed

lemma apply_store:
  "store (snd (apply_monitoring_strategy up net a d s)) = store s"
proof -
  have c: "store (snd (case configure_prometheus_scrape up net u auth s of
              (Inl e, s') \<Rightarrow> (Inl e, s') | (Inr sc, s') \<Rightarrow> (Inr (ScrapeConfigured sc), s')))
            = store s" for u auth
    using configure_store [of up net u auth s]
    by (cases "configure_prometheus_scrape up net u auth s") (auto split: sum.splits)
  show ?thesis
    unfolding apply_monitoring_strategy_def Let_def
    by (simp add: c split: sum.splits option.splits pyval.splits)
qed

lemma onboard_success:
  assumes "onboard_app up net app_data s = (Inr d, s')"
  shows "d \<in> set resolver_decisions"
    and "save_monitoring_strategy (url (model_dump_payload app_data)) d (store s)
           = Inr (store s')"
proof -
  define payload where "payload = model_dump_payload app_data"
  obtain r w1 where det: "detect_monitoring_strategy up net payload (network_state s) = (r, w1)"
    by (cases "detect_monitoring_strategy up net payload (network_state s)")
  with assms obtain d0 where r: "r = Inr d0"
    by (cases r) (auto simp add: onboard_app_def payload_def)
  obtain ar s2 where
    ap: "apply_monitoring_strategy up net payload d0 (s\<lparr>network_state := w1\<rparr>) = (ar, s2)"
    by (cases "apply_monitoring_strategy up net payload d0 (s\<lparr>network_state := w1\<rparr>)")
  have st: "store s2 = store s"
    using apply_store [of up net payload d0 "s\<lparr>network_state := w1\<rparr>"] ap by simp
  from assms det r ap obtain act where ar: "ar = Inr act"
    by (cases ar) (auto simp add: onboard_app_def payload_def)
  from assms det r ap ar have
    "(case save_monitoring_strategy (url payload) d0 (store s2) of
        Inl e \<Rightarrow> (Inl e, s2) | Inr db' \<Rightarrow> (Inr d0, s2\<lparr>store := db'\<rparr>)) = (Inr d, s')"
    by (simp add: onboard_app_def payload_def)
  then have both: "d = d0 \<and> save_monitoring_strategy (url payload) d0 (store s2) = Inr (store s')"
    by (cases "save_monitoring_strategy (url payload) d0 (store s2)") auto
  then show "save_monitoring_strategy (url (model_dump_payload app_data)) d (store s)
               = Inr (store s')"
    using st by (simp add: payload_def)
  show "d \<in> set resolver_decisions"
    using both det r detect_range [of up net payload "network_state s" d0 w1] by simp
qed

lemma unmonitorable_member:
  assumes "d \<in> set resolver_decisions" and "d ''monitorable'' = Some (PBool False)"
  shows "d = unmonitorable_decision"
  using assms
  by (auto simp add: resolver_decisions_def monitorable_decision_def)

lemma next_steps_text_plain:
  "plain_string (str_list [''Expose /metrics'', ''Enable OpenTelemetry SDK'',
                           ''Deploy OpenTelemetry Collector'', ''Use blackbox exporter''])"
  by code_simp

lemma unmonitorable_leftover:
  assumes "monitorable_decision s c t f = None"
    and "serialize_strategy unmonitorable_decision f = Some v"
  shows "f = ''next_steps''"
    and "v = str_list [''Expose /metrics'', ''Enable OpenTelemetry SDK'',
                       ''Deploy OpenTelemetry Collector'', ''Use blackbox exporter'']"
  using assms
  by (auto simp add: serialize_strategy_def monitorable_decision_def unmonitorable_decision_def
        serialize_value_def py_str_def split: if_splits)

lemma merged_hash_decodes:
  assumes "plain_string s" "plain_string c" "plain_string t"
    and "v \<in> ran (serialize_strategy unmonitorable_decision
                    ++ serialize_strategy (monitorable_decision s c t))"
  shows "\<not> isl (decode_value v)"
proof -
  from assms(4) have
    "\<exists>f. (serialize_strategy unmonitorable_decision
          ++ serialize_strategy (monitorable_decision s c t)) f = Some v"
    by (simp only: ran_def mem_Collect_eq)
  then obtain f where
    f: "(serialize_strategy unmonitorable_decision
          ++ serialize_strategy (monitorable_decision s c t)) f = Some v" ..
  show ?thesis
  proof (cases "monitorable_decision s c t f")
    case None
    then have "serialize_strategy unmonitorable_decision f = Some v"
      using f by (simp add: map_add_def serialize_strategy_def)
    from unmonitorable_leftover(2) [OF None this] show ?thesis
      using decode_plain [OF next_steps_text_plain] by simp
  next
    case (Some x)
    then have "serialize_strategy (monitorable_decision s c t) f = Some v"
      using f by (simp add: map_add_def serialize_strategy_def)
    from monitorable_values [OF assms(1-3) this] show ?thesis by simp
  qed
qed

lemma merged_hash_fetched:
  assumes "plain_string s" "plain_string c" "plain_string t"
  shows "(\<lambda>f. map_option (projr \<circ> decode_value)
            ((serialize_strategy unmonitorable_decision
                ++ serialize_strategy (monitorable_decision s c t)) f))
     = (as_fetched (monitorable_decision s c t))
         (''next_steps'' \<mapsto> Value (PStr (str_list [''Expose /metrics'',
              ''Enable OpenTelemetry SDK'', ''Deploy OpenTelemetry Collector'',
              ''Use blackbox exporter''])))"
proof (rule ext)
  fix f
  let ?steps = "str_list [''Expose /metrics'', ''Enable OpenTelemetry SDK'',
                          ''Deploy OpenTelemetry Collector'', ''Use blackbox exporter'']"
  let ?merged = "serialize_strategy unmonitorable_decision
                   ++ serialize_strategy (monitorable_decision s c t)"
  show "map_option (projr \<circ> decode_value) (?merged f)
          = ((as_fetched (monitorable_decision s c t))(''next_steps'' \<mapsto> Value (PStr ?steps))) f"
  proof (cases "monitorable_decision s c t f")
    case (Some x)
    then have ne: "f \<noteq> ''next_steps''"
      by (auto simp add: monitorable_decision_def split: if_splits)
    have "?merged f = serialize_strategy (monitorable_decision s c t) f"
      using Some by (simp add: map_add_def serialize_strategy_def)
    then have "map_option (projr \<circ> decode_value) (?merged f)
                 = as_fetched (monitorable_decision s c t) f"
      using monitorable_roundtrips [OF assms] by (simp add: fun_eq_iff)
    then show ?thesis using ne by simp
  next
    case None
    have m: "?merged f = serialize_strategy unmonitorable_decision f"
      using None by (simp add: map_add_def serialize_strategy_def)
    show ?thesis
    proof (cases "f = ''next_steps''")
      case True
      have "?merged ''next_steps'' = Some ?steps"
        by (simp add: map_add_def serialize_strategy_def monitorable_decision_def
              unmonitorable_decision_def serialize_value_def py_str_def)
      then show ?thesis
        using True decode_plain [OF next_steps_text_plain] by simp
    next
      case False
      have "serialize_strategy unmonitorable_decision f = None"
      proof (cases "serialize_strategy unmonitorable_decision f")
        case (Some v)
        from unmonitorable_leftover(1) [OF None Some] False show ?thesis by simp
      qed simp
      then show ?thesis
        using m None False by (simp add: as_fetched_def)
    qed
  qed
qed

text \<open>
  C8 fails on the code. \<open>save_monitoring_strategy\<close> only sends \<^verbatim>\<open>HSET\<close>, which sets
  the fields it is given and keeps the others of the hash, and nothing deletes the key
  first. So when a first call to \<open>onboard_app\<close> finds the key of its URL empty and returns
  the unmonitorable decision, and a later call for the same URL returns a monitorable
  decision \<open>d2\<close>, the record fetched afterwards is not \<open>d2\<close>: it is \<open>d2\<close> together with the
  \<open>next_steps\<close> of the first call, as the string \<^verbatim>\<open>str\<close> made of the list.
\<close>

theorem second_onboarding_keeps_next_steps:
  assumes "hashes (store s) (''app:'' @ str_http_url (request_url app_data)) = None"
    and "onboard_app urlparse_hostname net app_data s = (Inr d1, s1)"
    and "d1 ''monitorable'' = Some (PBool False)"
    and "store t = store s1"
    and "request_url app_data' = request_url app_data"
    and "onboard_app urlparse_hostname' net' app_data' t = (Inr d2, s2)"
    and "d2 ''monitorable'' = Some (PBool True)"
  shows "get_monitoring_strategy (str_http_url (request_url app_data)) (store s2) =
           Inr (Some ((as_fetched d2)(''next_steps'' \<mapsto>
                  Value (PStr (str_list [''Expose /metrics'', ''Enable OpenTelemetry SDK'',
                    ''Deploy OpenTelemetry Collector'', ''Use blackbox exporter'']))))) 
       \<and> get_monitoring_strategy (str_http_url (request_url app_data)) (store s2)
           \<noteq> Inr (Some (as_fetched d2))"
proof -
  let ?k = "str_http_url (request_url app_data)"
  let ?steps = "str_list [''Expose /metrics'', ''Enable OpenTelemetry SDK'',
                          ''Deploy OpenTelemetry Collector'', ''Use blackbox exporter'']"
  note o1 = onboard_success [OF assms(2)]
  note o2 = onboard_success [OF assms(6)]
  have d1: "d1 = unmonitorable_decision"
    using unmonitorable_member [OF o1(1) assms(3)] .
  obtain sg c tx where d2: "d2 = monitorable_decision sg c tx"
    and plain: "plain_string sg" "plain_string c" "plain_string tx"
    using monitorable_members [OF o2(1) assms(7)] by blast
  have save1: "save_monitoring_strategy ?k d1 (store s) = Inr (store s1)"
    using o1(2) by (simp add: model_dump_payload_def)
  have save2: "save_monitoring_strategy ?k d2 (store s1) = Inr (store s2)"
    using o2(2) assms(4,5) by (simp add: model_dump_payload_def)
  have h1: "hashes (store s1) (''app:'' @ ?k) = Some (serialize_strategy d1)"
    using save_result(4) [OF save1] assms(1) by simp
  have h2: "hashes (store s2) (''app:'' @ ?k)
              = Some (serialize_strategy d1 ++ serialize_strategy d2)"
    using save_result(4) [OF save2] h1 by simp
  have "get_monitoring_strategy ?k (store s2) =
          Inr (Some (\<lambda>f. map_option (projr \<circ> decode_value)
                 ((serialize_strategy d1 ++ serialize_strategy d2) f)))"
  proof (rule get_stored [OF save_result(3) [OF save2] h2])
    show "serialize_strategy d1 ++ serialize_strategy d2 \<noteq> Map.empty"
      using save_result(2) [OF save2] by (simp add: serialize_nonempty)
    show "\<not> isl (decode_value v)"
      if "v \<in> ran (serialize_strategy d1 ++ serialize_strategy d2)" for v
      using merged_hash_decodes [OF plain] that unfolding d1 d2 by blast
  qed
  then have fetched: "get_monitoring_strategy ?k (store s2) =
      Inr (Some ((as_fetched d2)(''next_steps'' \<mapsto> Value (PStr ?steps))))"
    unfolding d1 d2 merged_hash_fetched [OF plain] .
  have "as_fetched d2 ''next_steps'' = None"
    by (simp add: d2 as_fetched_def monitorable_decision_def)
  then have "(as_fetched d2)(''next_steps'' \<mapsto> Value (PStr ?steps)) \<noteq> as_fetched d2"
    by (metis fun_upd_same option.distinct(1))
  then show ?thesis
    using fetched by simp
qed

lemma svc_payload:
  "model_dump_payload svc_request
     = \<lparr>app_type = ''backend'', framework = Some ''fastapi'',
        url = ''http://svc.local/'', env = Some ''prod''\<rparr>"
  by (simp add: model_dump_payload_def svc_request_def str_http_url_def)

lemma dead_run:
  "detect_monitoring_strategy request_urlparse dead_network (model_dump_payload svc_request) ()
      = (Inr unmonitorable_decision, ())"
  by (simp add: svc_payload detect_monitoring_strategy_def request_urlparse_def
        urlparse_table_def dead_network_def table_network_def table_reply_def probe_chain_def
        check_prometheus_metrics_def check_prometheus_auth_def check_otlp_http_def
        check_otlp_grpc_def check_statsd_def check_blackbox_http_def
        empty_headers_no_markers)

lemma serving_run:
  "detect_monitoring_strategy request_urlparse serving_network (model_dump_payload svc_request) ()
     = (Inr prometheus_found, ())"
  by (simp add: svc_payload detect_monitoring_strategy_def request_urlparse_def
        urlparse_table_def serving_network_def table_network_def table_reply_def
        probe_chain_def check_prometheus_metrics_def metrics_page_def prometheus_found_def)

lemma first_onboarding_result:
  "first_onboarding = (Inr unmonitorable_decision,
     machine (Inl OSError) None
       (empty_redis\<lparr>hashes := [''app:'' @ ''http://svc.local/'' \<mapsto>
                                  serialize_strategy unmonitorable_decision]\<rparr>))"
proof -
  have ap: "apply_monitoring_strategy request_urlparse dead_network
              (model_dump_payload svc_request) unmonitorable_decision s
              = (Inr Skipped, s)" for s :: "unit system"
    by (simp add: apply_monitoring_strategy_def unmonitorable_decision_def py_truthy_def
          logs_or_skipped_def)
  have k: "url (model_dump_payload svc_request) = ''http://svc.local/''"
    by (simp add: svc_payload)
  have sv: "save_monitoring_strategy ''http://svc.local/'' unmonitorable_decision empty_redis
              = Inr (empty_redis\<lparr>hashes := [''app:'' @ ''http://svc.local/'' \<mapsto>
                                  serialize_strategy unmonitorable_decision]\<rparr>)"
    by (rule save_on_empty) (rule decisions_nonempty)
  have m: "network_state (machine f wf db) = ()"
    "(machine f wf db)\<lparr>network_state := ()\<rparr> = machine f wf db"
    "store (machine f wf db) = db"
    "(machine f wf db)\<lparr>store := db'\<rparr> = machine f wf db'" for f wf db db'
    by (simp_all add: machine_def)
  show ?thesis
    unfolding first_onboarding_def onboard_app_def Let_def
    by (simp only: m dead_run ap k sv prod.case sum.case)
qed

lemma second_onboarding_result:
  "fst second_onboarding = Inr prometheus_found"
proof -
  define db1 where "db1 = empty_redis\<lparr>hashes := [''app:'' @ ''http://svc.local/'' \<mapsto>
                                  serialize_strategy unmonitorable_decision]\<rparr>"
  define s1 where "s1 = machine (Inl OSError) None db1"
  have first: "snd first_onboarding = s1"
    by (simp only: first_onboarding_result s1_def db1_def snd_conv)
  have st: "network_state s1 = ()" "s1\<lparr>network_state := ()\<rparr> = s1"
    "prometheus_yml s1 = Inl OSError" "store s1 = db1"
    by (simp_all add: s1_def machine_def)
  have k: "url (model_dump_payload svc_request) = ''http://svc.local/''"
    by (simp add: svc_payload)
  have up: "request_urlparse ''http://svc.local/'' = Inr (Some ''svc.local'')"
    by (simp add: request_urlparse_def urlparse_table_def)
  have add: "add_prometheus_scrape_job serving_network sc s1 = (False, s1)" for sc
    by (rule add_job_load_error [of _ OSError]) (simp add: st load_jobs_io_error)
  have ap: "apply_monitoring_strategy request_urlparse serving_network
              (model_dump_payload svc_request) prometheus_found s1
              = (Inr (ScrapeConfigured svc_scrape), s1)"
    by (simp add: apply_monitoring_strategy_def prometheus_found_def monitorable_decision_def
          configure_prometheus_scrape_def k up add svc_scrape_def Let_def)
  have "reachable db1" by (simp add: db1_def empty_redis_def)
  then obtain db2 where
    sv: "save_monitoring_strategy ''http://svc.local/'' prometheus_found db1 = Inr db2"
    by (simp add: save_monitoring_strategy_def hset_def serialize_nonempty
          prometheus_found_def decisions_nonempty)
  show ?thesis
    unfolding second_onboarding_def first onboard_app_def Let_def
    by (simp only: st serving_run ap k sv prod.case sum.case fst_conv)
qed

theorem second_onboarding_keeps_next_steps_witness:
  "hashes (store (machine (Inl OSError) None empty_redis))
       (''app:'' @ str_http_url (request_url svc_request)) = None
   \<and> str_http_url (request_url svc_request) = ''http://svc.local/''
   \<and> fst first_onboarding = Inr unmonitorable_decision
   \<and> unmonitorable_decision ''monitorable'' = Some (PBool False)
   \<and> fst second_onboarding = Inr prometheus_found
   \<and> prometheus_found ''monitorable'' = Some (PBool True)
   \<and> get_monitoring_strategy ''http://svc.local/'' (store (snd second_onboarding)) =
        Inr (Some ((as_fetched prometheus_found)(''next_steps'' \<mapsto>
               Value (PStr (str_list [''Expose /metrics'', ''Enable OpenTelemetry SDK'',
                 ''Deploy OpenTelemetry Collector'', ''Use blackbox exporter''])))))
   \<and> get_monitoring_strategy ''http://svc.local/'' (store (snd second_onboarding))
        \<noteq> Inr (Some (as_fetched prometheus_found))"
proof -
  have k: "str_http_url (request_url svc_request) = ''http://svc.local/''"
    by (simp add: svc_request_def str_http_url_def)
  have fresh: "hashes (store (machine (Inl OSError) None empty_redis))
                 (''app:'' @ str_http_url (request_url svc_request)) = None"
    by (simp add: machine_def empty_redis_def)
  have f1: "fst first_onboarding = Inr unmonitorable_decision"
    by (simp only: first_onboarding_result fst_conv)
  have run1: "onboard_app request_urlparse dead_network svc_request
                (machine (Inl OSError) None empty_redis)
              = (Inr unmonitorable_decision, snd first_onboarding)"
    using f1 by (simp add: first_onboarding_def prod_eq_iff)
  have run2: "onboard_app request_urlparse serving_network svc_request (snd first_onboarding)
              = (Inr prometheus_found, snd second_onboarding)"
    using second_onboarding_result by (simp add: second_onboarding_def prod_eq_iff)
  have mon: "prometheus_found ''monitorable'' = Some (PBool True)"
    by (simp add: prometheus_found_def monitorable_decision_def)
  have unmon: "unmonitorable_decision ''monitorable'' = Some (PBool False)"
    by (simp add: unmonitorable_decision_def)
  note t = second_onboarding_keeps_next_steps [OF fresh run1 unmon refl refl run2 mon]
  show ?thesis
    using t fresh f1 second_onboarding_result mon unmon unfolding k by blast
qed


end
